theory Spec2Isabelle
  imports Main
begin

section \<open>Strings of the runtime\<close>

text \<open>
  A JavaScript string is modelled as the list of its code units. Every string that the
  modelled code inspects is an HTTP header value, a route parameter, a form field or a
  constant of the program; Node delivers header values as latin1, one code unit per byte,
  so the 8-bit \<^typ>\<open>char\<close> is the code unit.
\<close>

text \<open>\<^verbatim>\<open>String.prototype.split(sep)\<close> with a one-character separator:
  \<^verbatim>\<open>"".split(";")\<close> is \<^verbatim>\<open>[""]\<close> and \<^verbatim>\<open>"a;".split(";")\<close> is \<^verbatim>\<open>["a", ""]\<close>.\<close>

fun split :: "char \<Rightarrow> string \<Rightarrow> string list" where
  "split c [] = [[]]"
| "split c (x # xs) =
     (if x = c then [] # split c xs
      else (case split c xs of [] \<Rightarrow> [[x]] | s # ss \<Rightarrow> (x # s) # ss))"

text \<open>The white space and line terminators of ECMAScript among the code units up to
  \<open>0xFF\<close>: TAB, LF, VT, FF, CR, SP and NBSP. \<^verbatim>\<open>String.prototype.trim\<close> strips them
  from both ends.\<close>

definition is_ws :: "char \<Rightarrow> bool" where
  "is_ws c = (c \<in> {CHR 0x09, CHR 0x0A, CHR 0x0B, CHR 0x0C, CHR 0x0D, CHR 0x20, CHR 0xA0})"

definition trim :: "string \<Rightarrow> string" where
  "trim s = rev (dropWhile is_ws (rev (dropWhile is_ws s)))"

text \<open>\<^verbatim>\<open>String.prototype.indexOf(c)\<close>: the first position of \<open>c\<close>; \<open>None\<close> stands for
  the result \<open>-1\<close>.\<close>

definition indexOf :: "string \<Rightarrow> char \<Rightarrow> nat option" where
  "indexOf s c = (if c \<in> set s then Some (length (takeWhile (\<lambda>x. x \<noteq> c) s)) else None)"

text \<open>\<^verbatim>\<open>Array.prototype.join(sep)\<close> on strings.\<close>

fun join :: "string \<Rightarrow> string list \<Rightarrow> string" where
  "join sep [] = []"
| "join sep [p] = p"
| "join sep (p # q # ps) = p @ sep @ join sep (q # ps)"

text \<open>\<^verbatim>\<open>String.prototype.toUpperCase\<close> on the ASCII letters. The other code units are left
  as they are: no upper-case mapping of a non-ASCII character yields an ASCII letter of
  \<^verbatim>\<open>PATCH\<close>, \<^verbatim>\<open>DELETE\<close> or \<^verbatim>\<open>PUT\<close>, the only strings the result is compared with.\<close>

definition upper_char :: "char \<Rightarrow> char" where
  "upper_char c =
     (let n = (of_char c :: nat) in if 97 \<le> n \<and> n \<le> 122 then char_of (n - 32) else c)"

definition toUpperCase :: "string \<Rightarrow> string" where
  "toUpperCase s = map upper_char s"

text \<open>\<^verbatim>\<open>String(n)\<close> for an integer \<open>n\<close>: its decimal digits, with a minus sign
  for a negative number. (The integers here are ids of rows; the runtime writes an integer
  this way up to \<open>2^53\<close>.)\<close>

fun digits :: "nat \<Rightarrow> string" where
  "digits n = (if n < 10 then [char_of (48 + n)] else digits (n div 10) @ [char_of (48 + n mod 10)])"

declare digits.simps [simp del]

definition String_of_int :: "int \<Rightarrow> string" where
  "String_of_int i = (if i < 0 then CHR ''-'' # digits (nat (- i)) else digits (nat i))"

section \<open>The platform\<close>

text \<open>
  What the program calls and does not define: built-ins of the language
  (\<^verbatim>\<open>encodeURIComponent\<close>, \<^verbatim>\<open>decodeURIComponent\<close>, \<^verbatim>\<open>JSON.stringify\<close>, \<^verbatim>\<open>JSON.parse\<close>,
  \<^verbatim>\<open>Date.prototype.toUTCString\<close>, \<^verbatim>\<open>Number\<close>), libraries (\<^verbatim>\<open>bcrypt\<close>, \<^verbatim>\<open>i18next\<close>,
  \<^verbatim>\<open>pug\<close>) and the database's comparison of a bound parameter with an integer column.
  They are parameters of the model, so every theorem holds whatever they compute. A call
  that can throw returns a sum (\<open>Inl\<close> the exception) or an option (\<open>None\<close>: it threw).
\<close>

datatype js_error = JsError string

text \<open>The object \<^verbatim>\<open>{ type, message }\<close> that \<^verbatim>\<open>setFlash\<close> serialises.\<close>

record flash =
  flash_type :: string
  flash_message :: string

record ('j, 'n, 'v) platform =
  sql_eq :: "string \<Rightarrow> int \<Rightarrow> bool"
  encodeURIComponent :: "string \<Rightarrow> string"
  decodeURIComponent :: "string \<Rightarrow> string option"
  JSON_stringify :: "flash \<Rightarrow> string"
  JSON_parse :: "string \<Rightarrow> 'j option"
  toUTCString :: "int \<Rightarrow> string"
  Number :: "string \<Rightarrow> 'n"
  sql_eq_num :: "'n \<Rightarrow> int \<Rightarrow> bool"
  i18n_t :: "string \<Rightarrow> string \<Rightarrow> string"
  bcrypt_hash :: "string \<Rightarrow> nat \<Rightarrow> string"
  bcrypt_compare :: "string \<Rightarrow> string \<Rightarrow> bool"
  pug_renderFile :: "string \<Rightarrow> 'v \<Rightarrow> js_error + string"

section \<open>Cookies (src/app.js)\<close>

text \<open>
  An assignment \<^verbatim>\<open>acc[key] = v\<close> on an object made by \<^verbatim>\<open>{}\<close>, \<open>v\<close> a string. The key
  \<^verbatim>\<open>__proto__\<close> names the accessor of \<^verbatim>\<open>Object.prototype\<close>, whose setter ignores a value
  that is neither an object nor null: the object keeps its properties.
\<close>

definition obj_set :: "(string \<rightharpoonup> string) \<Rightarrow> string \<Rightarrow> string \<Rightarrow> (string \<rightharpoonup> string)" where
  "obj_set acc key v = (if key = ''__proto__'' then acc else acc(key \<mapsto> v))"

text \<open>The callback of \<^verbatim>\<open>reduce\<close> in \<^verbatim>\<open>parseCookies\<close>.\<close>

definition cookie_step ::
  "(string \<Rightarrow> string option) \<Rightarrow> (string \<rightharpoonup> string) \<Rightarrow> string \<Rightarrow> (string \<rightharpoonup> string)" where
  "cookie_step decode acc pair =
     (case indexOf pair CHR ''='' of
        None \<Rightarrow> acc
      | Some idx \<Rightarrow>
          (let key = trim (take idx pair);
               val = trim (drop (idx + 1) pair)
           in (case decode val of
                 Some d \<Rightarrow> obj_set acc key d
               | None \<Rightarrow> obj_set acc key val)))"

text \<open>\<^verbatim>\<open>parseCookies(cookieHeader)\<close>; \<open>None\<close> is a request with no \<^verbatim>\<open>Cookie\<close> header.\<close>

definition parseCookies ::
  "(string \<Rightarrow> string option) \<Rightarrow> string option \<Rightarrow> (string \<rightharpoonup> string)" where
  "parseCookies decode cookieHeader =
     (case cookieHeader of
        None \<Rightarrow> Map.empty
      | Some h \<Rightarrow>
          if h = [] then Map.empty
          else foldl (cookie_step decode) Map.empty
                 (filter (\<lambda>c. c \<noteq> []) (map trim (split CHR '';'' h))))"

text \<open>The options of \<^verbatim>\<open>serializeCookie\<close>. A date is its time value in milliseconds.\<close>

record cookie_opts =
  path :: "string option"
  expires :: "int option"
  httpOnly :: bool
  maxAge :: "int option"
  secure :: bool
  sameSite :: "string option"

definition no_opts :: cookie_opts where
  "no_opts = \<lparr>path = None, expires = None, httpOnly = False, maxAge = None,
              secure = False, sameSite = None\<rparr>"

text \<open>Truthiness of an optional string: \<^verbatim>\<open>undefined\<close> and \<^verbatim>\<open>""\<close> are falsy.\<close>

definition truthy :: "string option \<Rightarrow> bool" where
  "truthy v = (case v of None \<Rightarrow> False | Some s \<Rightarrow> s \<noteq> [])"

definition serializeCookie ::
  "('j, 'n, 'v) platform \<Rightarrow> string \<Rightarrow> string \<Rightarrow> cookie_opts \<Rightarrow> string" where
  "serializeCookie P name val opts =
     join ''; ''
       ([name @ ''='' @ encodeURIComponent P val]
        @ (if truthy (path opts) then [''Path='' @ the (path opts)] else [])
        @ (case expires opts of None \<Rightarrow> [] | Some d \<Rightarrow> [''Expires='' @ toUTCString P d])
        @ (if httpOnly opts then [''HttpOnly''] else [])
        @ (case maxAge opts of
             None \<Rightarrow> []
           | Some n \<Rightarrow> if n \<noteq> 0 then [''Max-Age='' @ String_of_int n] else [])
        @ (if secure opts then [''Secure''] else [])
        @ (if truthy (sameSite opts) then [''SameSite='' @ the (sameSite opts)] else []))"

text \<open>The value of the \<^verbatim>\<open>Set-Cookie\<close> header of the raw response: a string or an array.\<close>

datatype header_value = HStr string | HArr "string list"

record reply =
  statusCode :: nat
  contentType :: "string option"
  location :: "string option"
  payload :: "string option"
  setCookieHeader :: "header_value option"

definition new_reply :: reply where
  "new_reply = \<lparr>statusCode = 200, contentType = None, location = None, payload = None,
                setCookieHeader = None\<rparr>"

definition setCookie ::
  "('j, 'n, 'v) platform \<Rightarrow> reply \<Rightarrow> string \<Rightarrow> string \<Rightarrow> cookie_opts \<Rightarrow> reply" where
  "setCookie P rep name val opts =
     (let header = serializeCookie P name val opts in
      (case setCookieHeader rep of
         None \<Rightarrow> rep\<lparr>setCookieHeader := Some (HStr header)\<rparr>
       | Some (HStr prev) \<Rightarrow>
           if prev = [] then rep\<lparr>setCookieHeader := Some (HStr header)\<rparr>
           else rep\<lparr>setCookieHeader := Some (HArr [prev, header])\<rparr>
       | Some (HArr prev) \<Rightarrow> rep\<lparr>setCookieHeader := Some (HArr (prev @ [header]))\<rparr>))"

definition clearCookie ::
  "('j, 'n, 'v) platform \<Rightarrow> reply \<Rightarrow> string \<Rightarrow> cookie_opts \<Rightarrow> reply" where
  "clearCookie P rep name opts =
     setCookie P rep name []
       (opts\<lparr>expires := Some 0,
             path := Some (if truthy (path opts) then the (path opts) else ''/'')\<rparr>)"

definition setFlash :: "('j, 'n, 'v) platform \<Rightarrow> reply \<Rightarrow> string \<Rightarrow> string \<Rightarrow> reply" where
  "setFlash P rep type message =
     setCookie P rep ''flash''
       (JSON_stringify P \<lparr>flash_type = type, flash_message = message\<rparr>)
       (no_opts\<lparr>path := Some ''/'', httpOnly := False\<rparr>)"

text \<open>\<^verbatim>\<open>getFlash(request, reply)\<close> reads \<^verbatim>\<open>request.cookies\<close>. The result \<open>None\<close> is
  \<^verbatim>\<open>null\<close> returned by the first or the last \<^verbatim>\<open>return\<close>; \<open>Some parsed\<close> is the value
  of \<^verbatim>\<open>JSON.parse\<close> returned from the \<^verbatim>\<open>try\<close> block.\<close>

definition getFlash ::
  "('j, 'n, 'v) platform \<Rightarrow> (string \<rightharpoonup> string) \<Rightarrow> reply \<Rightarrow> 'j option \<times> reply" where
  "getFlash P cookies rep =
     (let v = cookies ''flash'' in
      if \<not> truthy v then (None, rep)
      else (case JSON_parse P (the v) of
              Some parsed \<Rightarrow> (Some parsed, clearCookie P rep ''flash'' (no_opts\<lparr>path := Some ''/''\<rparr>))
            | None \<Rightarrow> (None, rep)))"

section \<open>The relational schema (src/server.js, the part that is db.js)\<close>

text \<open>
  One record per table of \<^verbatim>\<open>ensureSchema\<close>, a table being the list of its rows. The
  columns \<^verbatim>\<open>id\<close> are integers; \<^verbatim>\<open>description\<close> and \<^verbatim>\<open>executorId\<close> are nullable.
  \<open>users_seq\<close> is the largest id the table \<^verbatim>\<open>users\<close> has ever given out (the
  column is \<^verbatim>\<open>increments\<close>).
\<close>

record user =
  user_id :: int
  firstName :: string
  lastName :: string
  email :: string
  password :: string

record status =
  status_id :: int
  status_name :: string

record task =
  task_id :: int
  task_name :: string
  description :: "string option"
  statusId :: int
  creatorId :: int
  executorId :: "int option"
  created_at :: int

record label =
  label_id :: int
  label_name :: string

record task_label =
  taskId :: int
  labelId :: int

record db =
  users :: "user list"
  users_seq :: int
  statuses :: "status list"
  tasks :: "task list"
  labels :: "label list"
  tasks_labels :: "task_label list"

text \<open>The attributes of \<^verbatim>\<open>knex('users').insert(attrs)\<close>.\<close>

record user_attrs =
  attr_firstName :: string
  attr_lastName :: string
  attr_email :: string
  attr_password :: string

text \<open>
  An insert into \<^verbatim>\<open>users\<close> under the schema: \<^verbatim>\<open>table.string('email').notNullable().unique()\<close>
  makes the database reject a row whose email is already in the table; otherwise the row
  gets the next id. The result is the new id, or the constraint error.
\<close>

definition users_insert :: "user_attrs \<Rightarrow> db \<Rightarrow> (js_error + int) \<times> db" where
  "users_insert attrs d =
     (if attr_email attrs \<in> set (map email (users d))
      then (Inl (JsError ''SQLITE_CONSTRAINT: UNIQUE constraint failed: users.email''), d)
      else (let i = users_seq d + 1 in
            (Inr i,
             d\<lparr>users := users d @
                   [\<lparr>user_id = i, firstName = attr_firstName attrs,
                     lastName = attr_lastName attrs, email = attr_email attrs,
                     password = attr_password attrs\<rparr>],
               users_seq := i\<rparr>)))"

section \<open>The status repository (src/server.js, the part that is statusRepository.js)\<close>

text \<open>
  \<open>eqv p i\<close> is the database's answer to \<^verbatim>\<open>column = ?\<close> for the bound parameter \<open>p\<close>
  (the route parameter, a string) and the integer \<open>i\<close> of the column.
\<close>

definition statusRepo_findAll :: "db \<Rightarrow> status list" where
  "statusRepo_findAll d = statuses d"

definition statusRepo_findById :: "(string \<Rightarrow> int \<Rightarrow> bool) \<Rightarrow> string \<Rightarrow> db \<Rightarrow> status option" where
  "statusRepo_findById eqv i d = find (\<lambda>s. eqv i (status_id s)) (statuses d)"

text \<open>\<^verbatim>\<open>remove(id)\<close>: the count of the tasks with \<^verbatim>\<open>statusId = id\<close>, then the delete of the
  statuses with that id, whose result is the number of rows deleted.\<close>

definition statusRepo_remove :: "(string \<Rightarrow> int \<Rightarrow> bool) \<Rightarrow> string \<Rightarrow> db \<Rightarrow> bool \<times> db" where
  "statusRepo_remove eqv i d =
     (let count = length (filter (\<lambda>t. eqv i (statusId t)) (tasks d)) in
      if count > 0 then (False, d)
      else (let deleted = length (filter (\<lambda>s. eqv i (status_id s)) (statuses d)) in
            (deleted > 0, d\<lparr>statuses := filter (\<lambda>s. \<not> eqv i (status_id s)) (statuses d)\<rparr>)))"

section \<open>The repositories that app.js imports and the sources do not hold\<close>

text \<open>
  \<^verbatim>\<open>userRepository.js\<close>, \<^verbatim>\<open>taskRepository.js\<close> and \<^verbatim>\<open>labelRepository.js\<close> are imported by
  \<^verbatim>\<open>app.js\<close>; the handlers take their functions as parameters. Each of them is
  awaited, so each may throw (\<open>Inl\<close>, or \<open>Some\<close> error for \<^verbatim>\<open>taskRepo.remove\<close>, whose
  value the handler drops); the ones that write return the new database.
\<close>

text \<open>The filter object of \<^verbatim>\<open>GET /tasks\<close>: a key that is absent is \<open>None\<close>;
  \<^verbatim>\<open>hasLabel\<close> is only ever set to \<^verbatim>\<open>true\<close>, so \<open>False\<close> stands for its absence.\<close>

record 'n filters =
  filter_statusId :: "'n option"
  filter_executorId :: "'n option"
  filter_labelId :: "'n option"
  filter_hasLabel :: bool
  filter_createdBy :: "int option"

record 'n repos =
  userRepo_findAll :: "db \<Rightarrow> js_error + user list"
  userRepo_findById :: "string \<Rightarrow> db \<Rightarrow> js_error + user option"
  userRepo_findByEmail :: "string \<Rightarrow> db \<Rightarrow> js_error + user option"
  userRepo_create :: "user_attrs \<Rightarrow> db \<Rightarrow> (js_error + user) \<times> db"
  userRepo_remove :: "string \<Rightarrow> db \<Rightarrow> (js_error + bool) \<times> db"
  taskRepo_findAll :: "'n filters \<Rightarrow> db \<Rightarrow> js_error + task list"
  taskRepo_findById :: "string \<Rightarrow> db \<Rightarrow> js_error + task option"
  taskRepo_remove :: "string \<Rightarrow> db \<Rightarrow> js_error option \<times> db"
  labelRepo_findAll :: "db \<Rightarrow> js_error + label list"

section \<open>Requests and replies (src/app.js)\<close>

text \<open>
  A form body: the field \<^verbatim>\<open>_method\<close> and the fields \<^verbatim>\<open>data[...]\<close>, each absent or a
  string, as the inputs of an HTML form are. \<^verbatim>\<open>request.raw\<close> holds the method and the
  \<^verbatim>\<open>Cookie\<close> header; \<^verbatim>\<open>request.params.id\<close> and the query parameters are strings.
\<close>

record form_body =
  body_method :: "string option"
  body_data :: "(string \<rightharpoonup> string) option"

record raw_request =
  raw_method :: string
  raw_url :: string
  header_cookie :: "string option"

record request =
  raw :: raw_request
  cookies :: "string \<rightharpoonup> string"
  currentUser :: "user option"
  params_id :: string
  query :: "string \<rightharpoonup> string"
  body :: "form_body option"

text \<open>
  \<^verbatim>\<open>request.method\<close>. The class of \<^verbatim>\<open>request\<close> is the framework's: its property
  \<^verbatim>\<open>method\<close> is an accessor, a getter that reads \<^verbatim>\<open>request.raw.method\<close>, with no setter.
\<close>

definition req_method :: "request \<Rightarrow> string" where
  "req_method req = raw_method (raw req)"

text \<open>The result of a handler: the reply as the handler left it, and the exception when
  the handler threw instead of sending.\<close>

type_synonym outcome = "js_error option \<times> reply"

definition redirect :: "reply \<Rightarrow> string \<Rightarrow> reply" where
  "redirect rep url = rep\<lparr>statusCode := 302, location := Some url\<rparr>"

definition send :: "reply \<Rightarrow> string \<Rightarrow> reply" where
  "send rep content = rep\<lparr>payload := Some content\<rparr>"

definition or_else :: "string option \<Rightarrow> string \<Rightarrow> string" where
  "or_else v dflt = (if truthy v then the v else dflt)"

text \<open>\<^verbatim>\<open>request.body && request.body.data ? request.body.data : {}\<close>, and a field of it
  with the default \<^verbatim>\<open>''\<close> of the destructuring.\<close>

definition data_of :: "request \<Rightarrow> (string \<rightharpoonup> string)" where
  "data_of req =
     (case body req of
        None \<Rightarrow> Map.empty
      | Some b \<Rightarrow> (case body_data b of None \<Rightarrow> Map.empty | Some dt \<Rightarrow> dt))"

definition field :: "(string \<rightharpoonup> string) \<Rightarrow> string \<Rightarrow> string" where
  "field dt k = (case dt k of None \<Rightarrow> [] | Some s \<Rightarrow> s)"

definition lang_of :: "request \<Rightarrow> string" where
  "lang_of req = or_else (query req ''lng'') ''es''"

subsection \<open>The hooks\<close>

text \<open>
  The \<^verbatim>\<open>preHandler\<close> hook: the method override of forms. The result is the request as
  the hook left it, and the exception when the hook threw. The first assignment,
  \<^verbatim>\<open>request.raw.method = m\<close>, writes a plain property. The second,
  \<^verbatim>\<open>request.method = m\<close>, assigns to the accessor with no setter; \<^verbatim>\<open>app.js\<close> is a module,
  so its code is strict, and the assignment throws a \<^verbatim>\<open>TypeError\<close>.
\<close>

definition preHandler :: "request \<Rightarrow> js_error option \<times> request" where
  "preHandler req =
     (if req_method req = ''POST'' \<and>
         (case body req of None \<Rightarrow> False | Some b \<Rightarrow> truthy (body_method b))
      then (let m = toUpperCase (the (body_method (the (body req)))) in
            if m \<in> set [''PATCH'', ''DELETE'', ''PUT'']
            then (let req1 = req\<lparr>raw := (raw req)\<lparr>raw_method := m\<rparr>\<rparr> in
                  (Some (JsError ''TypeError: Cannot set property method, which has only a getter''),
                   req1))
            else (None, req))
      else (None, req))"

text \<open>The \<^verbatim>\<open>onRequest\<close> hook: the cookies and the current user.\<close>

definition onRequest ::
  "('j, 'n, 'v) platform \<Rightarrow> 'n repos \<Rightarrow> request \<Rightarrow> db \<Rightarrow> js_error + request" where
  "onRequest P R req d =
     (let req1 = req\<lparr>cookies := parseCookies (decodeURIComponent P) (header_cookie (raw req))\<rparr>;
          userId = cookies req1 ''userId''
      in if truthy userId
         then (case userRepo_findById R (the userId) d of
                 Inl e \<Rightarrow> Inl e
               | Inr u \<Rightarrow> Inr (req1\<lparr>currentUser := u\<rparr>))
         else Inr (req1\<lparr>currentUser := None\<rparr>))"

subsection \<open>The error handler\<close>

text \<open>
  \<^verbatim>\<open>getRollbar()\<close> (rollbar.js is not among the sources) yields the collaborator or
  nothing, or throws. The collaborator's \<^verbatim>\<open>error(error, request.raw)\<close> acts on the
  collaborator's own state \<open>'w\<close> and may throw. \<^verbatim>\<open>request.log.error\<close> appends to a log.
\<close>

datatype 'w rollbar = Rollbar (rollbar_error: "js_error \<Rightarrow> raw_request \<Rightarrow> 'w \<Rightarrow> js_error option \<times> 'w")

record 'w monitor =
  collaborator :: 'w
  log :: "(string \<times> js_error) list"

definition errorHandler ::
  "(js_error + 'w rollbar option) \<Rightarrow> js_error \<Rightarrow> request \<Rightarrow> reply \<Rightarrow> 'w monitor
     \<Rightarrow> reply \<times> 'w monitor" where
  "errorHandler getRollbar err req rep m =
     (let m1 =
        (case getRollbar of
           Inl e \<Rightarrow> m\<lparr>log := log m @ [(''Error reporting to Rollbar'', e)]\<rparr>
         | Inr None \<Rightarrow> m
         | Inr (Some rollbarInstance) \<Rightarrow>
             (case rollbar_error rollbarInstance err (raw req) (collaborator m) of
                (Some e, w) \<Rightarrow>
                  m\<lparr>collaborator := w, log := log m @ [(''Error reporting to Rollbar'', e)]\<rparr>
              | (None, w) \<Rightarrow> m\<lparr>collaborator := w\<rparr>))
      in (send (rep\<lparr>statusCode := 500, contentType := Some ''text/html''\<rparr>)
            ''Internal Server Error'', m1))"

text \<open>What the framework does with a handler's outcome: an exception goes to the error
  handler, with the request and the reply of the handler.\<close>

definition respond ::
  "(js_error + 'w rollbar option) \<Rightarrow> request \<Rightarrow> outcome \<Rightarrow> 'w monitor \<Rightarrow> reply \<times> 'w monitor" where
  "respond getRollbar req out m =
     (case out of
        (None, rep) \<Rightarrow> (rep, m)
      | (Some err, rep) \<Rightarrow> errorHandler getRollbar err req rep m)"

text \<open>\<^verbatim>\<open>GET /debug/rollbar\<close>.\<close>

definition debug_rollbar :: "request \<Rightarrow> reply \<Rightarrow> outcome" where
  "debug_rollbar req rep = (Some (JsError ''Debug rollbar error: manual trigger''), rep)"

subsection \<open>The handlers\<close>

text \<open>\<^verbatim>\<open>DELETE /statuses/:id\<close>.\<close>

definition statuses_delete ::
  "('j, 'n, 'v) platform \<Rightarrow> request \<Rightarrow> reply \<Rightarrow> db \<Rightarrow> outcome \<times> db" where
  "statuses_delete P req rep d =
     (if currentUser req = None
      then ((None, redirect (setFlash P rep ''danger'' ''Access denied'') ''/session/new''), d)
      else (case statusRepo_remove (sql_eq P) (params_id req) d of
              (ok, d1) \<Rightarrow>
                if \<not> ok
                then ((None, redirect (setFlash P rep ''danger''
                                ''Cannot delete status with assigned tasks'') ''/statuses''), d1)
                else ((None, redirect (setFlash P rep ''success''
                                (i18n_t P (lang_of req) ''status.deleted'')) ''/statuses''), d1)))"

text \<open>\<^verbatim>\<open>DELETE /users/:id\<close>.\<close>

definition users_delete ::
  "('j, 'n, 'v) platform \<Rightarrow> 'n repos \<Rightarrow> request \<Rightarrow> reply \<Rightarrow> db \<Rightarrow> outcome \<times> db" where
  "users_delete P R req rep d =
     (if (case currentUser req of
            None \<Rightarrow> True
          | Some u \<Rightarrow> String_of_int (user_id u) \<noteq> params_id req)
      then ((None, redirect (setFlash P rep ''danger'' ''Access denied'') ''/users''), d)
      else (case userRepo_remove R (params_id req) d of
              (Inl e, d1) \<Rightarrow> ((Some e, rep), d1)
            | (Inr ok, d1) \<Rightarrow>
                if \<not> ok
                then ((None, redirect (setFlash P rep ''danger''
                                ''Cannot delete user with assigned tasks'') ''/users''), d1)
                else ((None, redirect
                         (setFlash P (clearCookie P rep ''userId'' (no_opts\<lparr>path := Some ''/''\<rparr>))
                            ''success'' ''User deleted'') ''/''), d1)))"

text \<open>\<^verbatim>\<open>DELETE /tasks/:id\<close>.\<close>

definition tasks_delete ::
  "('j, 'n, 'v) platform \<Rightarrow> 'n repos \<Rightarrow> request \<Rightarrow> reply \<Rightarrow> db \<Rightarrow> outcome \<times> db" where
  "tasks_delete P R req rep d =
     (case taskRepo_findById R (params_id req) d of
        Inl e \<Rightarrow> ((Some e, rep), d)
      | Inr None \<Rightarrow> ((None, send (rep\<lparr>statusCode := 404\<rparr>) ''Not found''), d)
      | Inr (Some tsk) \<Rightarrow>
          if (case currentUser req of
                None \<Rightarrow> True
              | Some u \<Rightarrow> String_of_int (user_id u) \<noteq> String_of_int (creatorId tsk))
          then ((None, redirect (setFlash P rep ''danger'' ''Access denied'') ''/tasks''), d)
          else (case taskRepo_remove R (params_id req) d of
                  (Some e, d1) \<Rightarrow> ((Some e, rep), d1)
                | (None, d1) \<Rightarrow>
                    ((None, redirect (setFlash P rep ''success''
                               (i18n_t P (lang_of req) ''task.deleted'')) ''/tasks''), d1)))"

text \<open>\<^verbatim>\<open>POST /users\<close>.\<close>

definition users_post ::
  "('j, 'n, 'v) platform \<Rightarrow> 'n repos \<Rightarrow> request \<Rightarrow> reply \<Rightarrow> db \<Rightarrow> outcome \<times> db" where
  "users_post P R req rep d =
     (let dt = data_of req;
          fName = field dt ''firstName'';
          lName = field dt ''lastName'';
          mail = field dt ''email'';
          pw = field dt ''password''
      in if fName = [] \<or> lName = [] \<or> mail = [] \<or> pw = [] \<or> length pw < 3
         then ((None, redirect (setFlash P rep ''danger''
                         ''Validation error: check required fields'') ''/users/new''), d)
         else (case userRepo_findByEmail R mail d of
                 Inl e \<Rightarrow> ((Some e, rep), d)
               | Inr (Some existing) \<Rightarrow>
                   ((None, redirect (setFlash P rep ''danger'' ''Email already in use'')
                             ''/users/new''), d)
               | Inr None \<Rightarrow>
                   (let hashed = bcrypt_hash P pw 10 in
                    (case userRepo_create R
                            \<lparr>attr_firstName = fName, attr_lastName = lName, attr_email = mail,
                             attr_password = hashed\<rparr> d of
                       (Inl e, d1) \<Rightarrow> ((Some e, rep), d1)
                     | (Inr u, d1) \<Rightarrow>
                         ((None, redirect
                            (setCookie P (setFlash P rep ''success'' ''User created'')
                               ''userId'' (String_of_int (user_id u)) (no_opts\<lparr>path := Some ''/''\<rparr>))
                            ''/users''), d1)))))"

text \<open>\<^verbatim>\<open>POST /session\<close>. It reads the database and does not write it.\<close>

definition session_post ::
  "('j, 'n, 'v) platform \<Rightarrow> 'n repos \<Rightarrow> request \<Rightarrow> reply \<Rightarrow> db \<Rightarrow> outcome" where
  "session_post P R req rep d =
     (let dt = data_of req;
          mail = field dt ''email'';
          pw = field dt ''password''
      in (case userRepo_findByEmail R mail d of
            Inl e \<Rightarrow> (Some e, rep)
          | Inr None \<Rightarrow>
              (None, redirect (setFlash P rep ''danger'' ''Invalid credentials'') ''/session/new'')
          | Inr (Some u) \<Rightarrow>
              if \<not> bcrypt_compare P pw (password u)
              then (None, redirect (setFlash P rep ''danger'' ''Invalid credentials'')
                            ''/session/new'')
              else (None, redirect
                      (setFlash P
                         (setCookie P rep ''userId'' (String_of_int (user_id u))
                            (no_opts\<lparr>path := Some ''/''\<rparr>))
                         ''success'' ''Signed in'') ''/'')))"

text \<open>\<^verbatim>\<open>GET /tasks\<close>: the filter object built from the query, then the view.\<close>

definition switched_on :: "string option \<Rightarrow> bool" where
  "switched_on v = (truthy v \<and> (the v = ''1'' \<or> the v = ''true'' \<or> the v = ''on''))"

definition task_filters :: "('j, 'n, 'v) platform \<Rightarrow> request \<Rightarrow> 'n filters" where
  "task_filters P req =
     \<lparr>filter_statusId =
        (if truthy (query req ''statusId'') then Some (Number P (the (query req ''statusId'')))
         else None),
      filter_executorId =
        (if truthy (query req ''executorId'') then Some (Number P (the (query req ''executorId'')))
         else None),
      filter_labelId =
        (if truthy (query req ''labelId'') then Some (Number P (the (query req ''labelId'')))
         else None),
      filter_hasLabel = switched_on (query req ''hasLabel''),
      filter_createdBy =
        (if switched_on (query req ''onlyMy'') \<and> currentUser req \<noteq> None
         then Some (user_id (the (currentUser req))) else None)\<rparr>"

text \<open>The locals of \<^verbatim>\<open>views/tasks/index.pug\<close> (the translation function apart).\<close>

record 'j tasks_index =
  view_lang :: string
  view_tasks :: "task list"
  view_currentUser :: "user option"
  view_flash :: "'j option"
  view_statuses :: "status list"
  view_users :: "user list"
  view_labels :: "label list"
  view_filters :: "string option list"

definition tasks_get ::
  "('j, 'n, 'j tasks_index) platform \<Rightarrow> 'n repos \<Rightarrow> request \<Rightarrow> reply \<Rightarrow> db \<Rightarrow> outcome" where
  "tasks_get P R req rep d =
     (case taskRepo_findAll R (task_filters P req) d of
        Inl e \<Rightarrow> (Some e, rep)
      | Inr tsks \<Rightarrow>
          (case userRepo_findAll R d of
             Inl e \<Rightarrow> (Some e, rep)
           | Inr usrs \<Rightarrow>
               (case labelRepo_findAll R d of
                  Inl e \<Rightarrow> (Some e, rep)
                | Inr lbls \<Rightarrow>
                    (case getFlash P (cookies req) rep of
                       (fl, rep1) \<Rightarrow>
                         (case pug_renderFile P ''views/tasks/index.pug''
                                 \<lparr>view_lang = lang_of req, view_tasks = tsks,
                                  view_currentUser = currentUser req, view_flash = fl,
                                  view_statuses = statusRepo_findAll d, view_users = usrs,
                                  view_labels = lbls,
                                  view_filters =
                                    map (query req)
                                      [''statusId'', ''executorId'', ''labelId'', ''onlyMy'',
                                       ''hasLabel'']\<rparr> of
                            Inl e \<Rightarrow> (Some e, rep1)
                          | Inr html \<Rightarrow>
                              (None, send (rep1\<lparr>contentType := Some ''text/html''\<rparr>) html))))))"

section \<open>The absent repositories, from the specification\<close>

text \<open>
  Modelled from the spec: \<^verbatim>\<open>userRepo.remove\<close> of repositories/userRepository.js, which is
  not among the sources. Section 3: deletion of a user is blocked if any task references
  the user as creator, and the executor reference is nulled on user deletion. Section
  4.1: removal returns a boolean saying whether the deletion was blocked, rather than
  throwing. The shape follows \<^verbatim>\<open>statusRepo.remove\<close> of the sources.
\<close>

definition spec_userRepo_remove ::
  "(string \<Rightarrow> int \<Rightarrow> bool) \<Rightarrow> string \<Rightarrow> db \<Rightarrow> (js_error + bool) \<times> db" where
  "spec_userRepo_remove eqv i d =
     (if list_ex (\<lambda>t. eqv i (creatorId t)) (tasks d) then (Inr False, d)
      else (Inr (list_ex (\<lambda>u. eqv i (user_id u)) (users d)),
            d\<lparr>users := filter (\<lambda>u. \<not> eqv i (user_id u)) (users d),
              tasks := map (\<lambda>t. case executorId t of
                                   None \<Rightarrow> t
                                 | Some e \<Rightarrow> if eqv i e then t\<lparr>executorId := None\<rparr> else t)
                         (tasks d)\<rparr>))"

text \<open>
  Modelled from the spec: \<^verbatim>\<open>userRepo.findAll\<close> of repositories/userRepository.js, which
  is not among the sources. Section 4.1: each repository exposes \<^verbatim>\<open>findAll\<close>.
\<close>

definition spec_userRepo_findAll :: "db \<Rightarrow> js_error + user list" where
  "spec_userRepo_findAll d = Inr (users d)"

text \<open>
  Modelled from the spec: \<^verbatim>\<open>userRepo.findById\<close> of repositories/userRepository.js, which
  is not among the sources. Section 4.1: each repository exposes \<^verbatim>\<open>findById(id)\<close>; the
  shape follows \<^verbatim>\<open>statusRepo.findById\<close> of the sources.
\<close>

definition spec_userRepo_findById ::
  "(string \<Rightarrow> int \<Rightarrow> bool) \<Rightarrow> string \<Rightarrow> db \<Rightarrow> js_error + user option" where
  "spec_userRepo_findById eqv i d = Inr (find (\<lambda>u. eqv i (user_id u)) (users d))"

text \<open>
  Modelled from the spec: \<^verbatim>\<open>userRepo.findByEmail\<close> of repositories/userRepository.js,
  which is not among the sources. Section 4.1: a repository has entity-specific queries;
  section 3: a user has an email, which is unique.
\<close>

definition spec_userRepo_findByEmail :: "string \<Rightarrow> db \<Rightarrow> js_error + user option" where
  "spec_userRepo_findByEmail m d = Inr (find (\<lambda>u. email u = m) (users d))"

text \<open>
  Modelled from the spec: \<^verbatim>\<open>userRepo.create\<close> of repositories/userRepository.js, which is
  not among the sources. Section 4.1 names \<^verbatim>\<open>create(attrs)\<close>; it is the insert under the
  schema followed by the lookup of the new row, as \<^verbatim>\<open>statusRepo.create\<close> of the sources
  does for statuses.
\<close>

definition spec_userRepo_create :: "user_attrs \<Rightarrow> db \<Rightarrow> (js_error + user) \<times> db" where
  "spec_userRepo_create attrs d =
     (case users_insert attrs d of
        (Inl e, d1) \<Rightarrow> (Inl e, d1)
      | (Inr i, d1) \<Rightarrow>
          (case find (\<lambda>u. user_id u = i) (users d1) of
             None \<Rightarrow> (Inl (JsError ''TypeError''), d1)
           | Some u \<Rightarrow> (Inr u, d1)))"

text \<open>
  Modelled from the spec: the predicate of \<^verbatim>\<open>taskRepo.findAll\<close> of
  repositories/taskRepository.js, which is not among the sources. Section 4.1: it accepts
  the filters statusId, executorId, labelId, hasLabel and createdBy and composes them as
  AND-conjoined predicates against the joined tables. A label belongs to a task through a row of the join table (section 3);
  \<^verbatim>\<open>hasLabel\<close> asks for a task with at least one label.
\<close>

definition task_matches :: "('n \<Rightarrow> int \<Rightarrow> bool) \<Rightarrow> 'n filters \<Rightarrow> db \<Rightarrow> task \<Rightarrow> bool" where
  "task_matches eqn f d t =
     ((case filter_statusId f of None \<Rightarrow> True | Some n \<Rightarrow> eqn n (statusId t)) \<and>
      (case filter_executorId f of
         None \<Rightarrow> True
       | Some n \<Rightarrow> (case executorId t of None \<Rightarrow> False | Some e \<Rightarrow> eqn n e)) \<and>
      (case filter_labelId f of
         None \<Rightarrow> True
       | Some n \<Rightarrow> list_ex (\<lambda>tl. taskId tl = task_id t \<and> eqn n (labelId tl)) (tasks_labels d)) \<and>
      (if filter_hasLabel f then list_ex (\<lambda>tl. taskId tl = task_id t) (tasks_labels d)
       else True) \<and>
      (case filter_createdBy f of None \<Rightarrow> True | Some i \<Rightarrow> creatorId t = i))"

text \<open>
  Modelled from the spec: \<^verbatim>\<open>taskRepo.findAll\<close> of repositories/taskRepository.js, which is
  not among the sources. Section 4.1 and section 8: it returns the rows of \<^verbatim>\<open>tasks\<close>
  that match the conjunction above, and only them.
\<close>

definition spec_taskRepo_findAll ::
  "('n \<Rightarrow> int \<Rightarrow> bool) \<Rightarrow> 'n filters \<Rightarrow> db \<Rightarrow> js_error + task list" where
  "spec_taskRepo_findAll eqn f d = Inr (filter (task_matches eqn f d) (tasks d))"

text \<open>
  Modelled from the spec: \<^verbatim>\<open>taskRepo.findById\<close> of repositories/taskRepository.js, which
  is not among the sources. Section 4.1: each repository exposes \<^verbatim>\<open>findById(id)\<close>; the
  shape follows \<^verbatim>\<open>statusRepo.findById\<close> of the sources.
\<close>

definition spec_taskRepo_findById ::
  "(string \<Rightarrow> int \<Rightarrow> bool) \<Rightarrow> string \<Rightarrow> db \<Rightarrow> js_error + task option" where
  "spec_taskRepo_findById eqv i d = Inr (find (\<lambda>t. eqv i (task_id t)) (tasks d))"

text \<open>
  Modelled from the spec: \<^verbatim>\<open>taskRepo.remove\<close> of repositories/taskRepository.js, which is
  not among the sources. Section 4.1: each repository exposes \<^verbatim>\<open>remove(id)\<close>; section 3:
  the rows of the join table go with their task (cascading delete from the task side).
\<close>

definition spec_taskRepo_remove ::
  "(string \<Rightarrow> int \<Rightarrow> bool) \<Rightarrow> string \<Rightarrow> db \<Rightarrow> js_error option \<times> db" where
  "spec_taskRepo_remove eqv i d =
     (None, d\<lparr>tasks := filter (\<lambda>t. \<not> eqv i (task_id t)) (tasks d),
              tasks_labels := filter (\<lambda>tl. \<not> eqv i (taskId tl)) (tasks_labels d)\<rparr>)"

text \<open>Modelled from the spec: \<^verbatim>\<open>labelRepo.findAll\<close> of repositories/labelRepository.js,
  which is not among the sources (section 4.1).\<close>

definition spec_labelRepo_findAll :: "db \<Rightarrow> js_error + label list" where
  "spec_labelRepo_findAll d = Inr (labels d)"

text \<open>
  Modelled from the spec: the repositories above, as the modules that \<^verbatim>\<open>app.js\<close>
  imports.
\<close>

definition spec_repos :: "('j, 'n, 'v) platform \<Rightarrow> 'n repos" where
  "spec_repos P =
     \<lparr>userRepo_findAll = spec_userRepo_findAll,
      userRepo_findById = spec_userRepo_findById (sql_eq P),
      userRepo_findByEmail = spec_userRepo_findByEmail,
      userRepo_create = spec_userRepo_create,
      userRepo_remove = spec_userRepo_remove (sql_eq P),
      taskRepo_findAll = spec_taskRepo_findAll (sql_eq_num P),
      taskRepo_findById = spec_taskRepo_findById (sql_eq P),
      taskRepo_remove = spec_taskRepo_remove (sql_eq P),
      labelRepo_findAll = spec_labelRepo_findAll\<rparr>"

section \<open>A sample platform and sample data\<close>

text \<open>
  One platform on which the definitions run, for the concrete instances below. Its
  view of the tasks is the list of their names. The
  percent-encoding keeps the unreserved characters of \<^verbatim>\<open>encodeURIComponent\<close>; the
  decoding undoes the escapes of ASCII characters and fails on a malformed escape and,
  in this sample, on any other escape.
\<close>

definition hexdigit :: "nat \<Rightarrow> char" where
  "hexdigit n = ''0123456789ABCDEF'' ! (n mod 16)"

definition pct :: "nat \<Rightarrow> string" where
  "pct n = [CHR ''%'', hexdigit (n div 16), hexdigit n]"

definition unreserved :: "char \<Rightarrow> bool" where
  "unreserved c =
     (c \<in> set (''ABCDEFGHIJKLMNOPQRSTUVWXYZabcdefghijklmnopqrstuvwxyz0123456789-_.!~*()''
               @ [CHR 0x27]))"

definition sample_encode :: "string \<Rightarrow> string" where
  "sample_encode s =
     concat (map (\<lambda>c. let n = (of_char c :: nat) in
                       if unreserved c then [c]
                       else if n < 128 then pct n
                       else pct (192 + n div 64) @ pct (128 + n mod 64)) s)"

definition hexval :: "char \<Rightarrow> nat option" where
  "hexval c =
     (let n = (of_char c :: nat) in
      if 48 \<le> n \<and> n \<le> 57 then Some (n - 48)
      else if 65 \<le> n \<and> n \<le> 70 then Some (n - 55)
      else if 97 \<le> n \<and> n \<le> 102 then Some (n - 87)
      else None)"

fun sample_decode :: "string \<Rightarrow> string option" where
  "sample_decode [] = Some []"
| "sample_decode [c] = (if c = CHR ''%'' then None else Some [c])"
| "sample_decode [c, c1] = (if c = CHR ''%'' then None else map_option ((#) c) (sample_decode [c1]))"
| "sample_decode (c # c1 # c2 # cs) =
     (if c = CHR ''%''
      then (case (hexval c1, hexval c2) of
              (Some a, Some b) \<Rightarrow>
                if 16 * a + b < 128 then map_option ((#) (char_of (16 * a + b))) (sample_decode cs)
                else None
            | _ \<Rightarrow> None)
      else map_option ((#) c) (sample_decode (c1 # c2 # cs)))"

text \<open>A JSON text of the shape \<^verbatim>\<open>{"type":"...","message":"..."}\<close> whose strings need no
  escape, written and read back.\<close>

definition dq :: string where
  "dq = [CHR 0x22]"

definition sample_stringify :: "flash \<Rightarrow> string" where
  "sample_stringify f =
     ''{'' @ dq @ ''type'' @ dq @ '':'' @ dq @ flash_type f @ dq @ '','' @
     dq @ ''message'' @ dq @ '':'' @ dq @ flash_message f @ dq @ ''}''"

definition strip_prefix :: "string \<Rightarrow> string \<Rightarrow> string option" where
  "strip_prefix p s = (if take (length p) s = p then Some (drop (length p) s) else None)"

definition sample_parse :: "string \<Rightarrow> flash option" where
  "sample_parse s =
     (case strip_prefix (''{'' @ dq @ ''type'' @ dq @ '':'' @ dq) s of
        None \<Rightarrow> None
      | Some r1 \<Rightarrow>
          (let ty = takeWhile (\<lambda>c. c \<noteq> CHR 0x22) r1 in
           (case strip_prefix (dq @ '','' @ dq @ ''message'' @ dq @ '':'' @ dq)
                   (drop (length ty) r1) of
              None \<Rightarrow> None
            | Some r2 \<Rightarrow>
                (let msg = takeWhile (\<lambda>c. c \<noteq> CHR 0x22) r2 in
                 if drop (length msg) r2 = dq @ ''}''
                 then Some \<lparr>flash_type = ty, flash_message = msg\<rparr> else None))))"

definition sample_Number :: "string \<Rightarrow> int option" where
  "sample_Number s =
     (if s \<noteq> [] \<and> list_all (\<lambda>c. 48 \<le> (of_char c :: nat) \<and> (of_char c :: nat) \<le> 57) s
      then Some (foldl (\<lambda>a c. 10 * a + (int (of_char c) - 48)) 0 s) else None)"

definition P0 :: "(flash, int option, flash tasks_index) platform" where
  "P0 =
     \<lparr>sql_eq = (\<lambda>s i. s = String_of_int i),
      encodeURIComponent = sample_encode,
      decodeURIComponent = sample_decode,
      JSON_stringify = sample_stringify,
      JSON_parse = sample_parse,
      toUTCString = (\<lambda>ms. if ms = 0 then ''Thu, 01 Jan 1970 00:00:00 GMT'' else String_of_int ms),
      Number = sample_Number,
      sql_eq_num = (\<lambda>n i. n = Some i),
      i18n_t = (\<lambda>lng k. k),
      bcrypt_hash = (\<lambda>pw rounds. ''hashed:'' @ pw),
      bcrypt_compare = (\<lambda>pw h. h = ''hashed:'' @ pw),
      pug_renderFile = (\<lambda>file v. Inr (join '', '' (map task_name (view_tasks v))))\<rparr>"

text \<open>Two users, two statuses, three tasks (the first with a label), one label.\<close>

definition alice :: user where
  "alice = \<lparr>user_id = 1, firstName = ''Alice'', lastName = ''A'', email = ''alice@example.com'',
            password = ''hashed:secret''\<rparr>"

definition bob :: user where
  "bob = \<lparr>user_id = 2, firstName = ''Bob'', lastName = ''B'', email = ''bob@example.com'',
          password = ''hashed:hunter2''\<rparr>"

definition task1 :: task where
  "task1 = \<lparr>task_id = 1, task_name = ''write'', description = None, statusId = 1, creatorId = 1,
            executorId = Some 2, created_at = 0\<rparr>"

definition task2 :: task where
  "task2 = \<lparr>task_id = 2, task_name = ''review'', description = None, statusId = 1, creatorId = 2,
            executorId = None, created_at = 0\<rparr>"

definition task3 :: task where
  "task3 = \<lparr>task_id = 3, task_name = ''ship'', description = None, statusId = 1, creatorId = 1,
            executorId = Some 1, created_at = 0\<rparr>"

definition db0 :: db where
  "db0 =
     \<lparr>users = [alice, bob], users_seq = 2,
      statuses = [\<lparr>status_id = 1, status_name = ''open''\<rparr>, \<lparr>status_id = 2, status_name = ''done''\<rparr>],
      tasks = [task1, task2, task3],
      labels = [\<lparr>label_id = 1, label_name = ''bug''\<rparr>],
      tasks_labels = [\<lparr>taskId = 1, labelId = 1\<rparr>]\<rparr>"

definition req0 :: request where
  "req0 =
     \<lparr>raw = \<lparr>raw_method = ''GET'', raw_url = ''/'', header_cookie = None\<rparr>,
      cookies = Map.empty, currentUser = None, params_id = [], query = Map.empty, body = None\<rparr>"

text \<open>A registration form that asks for Alice's email.\<close>

definition form_alice :: request where
  "form_alice =
     req0\<lparr>raw := (raw req0)\<lparr>raw_method := ''POST''\<rparr>,
          body := Some \<lparr>body_method = None,
                        body_data = Some [''firstName'' \<mapsto> ''Eve'', ''lastName'' \<mapsto> ''E'',
                                          ''email'' \<mapsto> ''alice@example.com'',
                                          ''password'' \<mapsto> ''secret'']\<rparr>\<rparr>"

text \<open>A sign-in form.\<close>

definition login :: "string \<Rightarrow> string \<Rightarrow> request" where
  "login m p =
     req0\<lparr>raw := (raw req0)\<lparr>raw_method := ''POST''\<rparr>,
          body := Some \<lparr>body_method = None,
                        body_data = Some [''email'' \<mapsto> m, ''password'' \<mapsto> p]\<rparr>\<rparr>"

text \<open>A form posted with the field \<^verbatim>\<open>_method\<close>, or without it.\<close>

definition form_method :: "string option \<Rightarrow> request" where
  "form_method v =
     req0\<lparr>raw := (raw req0)\<lparr>raw_method := ''POST''\<rparr>,
          body := Some \<lparr>body_method = v, body_data = None\<rparr>\<rparr>"

text \<open>A collaborator that records what it is sent, and one whose \<^verbatim>\<open>error\<close> throws.\<close>

definition recording :: "(js_error \<times> raw_request) list rollbar" where
  "recording = Rollbar (\<lambda>e r w. (None, w @ [(e, r)]))"

definition failing :: "(js_error \<times> raw_request) list rollbar" where
  "failing = Rollbar (\<lambda>e r w. (Some (JsError ''network''), w))"

definition monitor0 :: "(js_error \<times> raw_request) list monitor" where
  "monitor0 = \<lparr>collaborator = [], log = []\<rparr>"

section \<open>What the cookie parser computes, in the words of the claims\<close>

text \<open>
  The pairs of a \<^verbatim>\<open>Cookie\<close> header: its segments between semicolons, trimmed, the empty
  ones dropped. The key of a pair is what stands before its first \<^verbatim>\<open>=\<close>, trimmed; its
  value is what stands after it, trimmed, then decoded, or as it is when the decoding
  throws. These are compared with \<^const>\<open>parseCookies\<close> below.
\<close>

definition cookie_pairs :: "string \<Rightarrow> string list" where
  "cookie_pairs h = filter (\<lambda>c. c \<noteq> []) (map trim (split CHR '';'' h))"

definition pair_key :: "string \<Rightarrow> string" where
  "pair_key p = trim (takeWhile (\<lambda>x. x \<noteq> CHR ''='') p)"

definition pair_raw :: "string \<Rightarrow> string" where
  "pair_raw p = trim (tl (dropWhile (\<lambda>x. x \<noteq> CHR ''='') p))"

definition pair_value :: "(string \<Rightarrow> string option) \<Rightarrow> string \<Rightarrow> string" where
  "pair_value decode p = (case decode (pair_raw p) of Some v \<Rightarrow> v | None \<Rightarrow> pair_raw p)"

text \<open>The values of the \<^verbatim>\<open>Set-Cookie\<close> header of a reply, in the order they were set.\<close>

definition set_cookies :: "reply \<Rightarrow> string list" where
  "set_cookies rep =
     (case setCookieHeader rep of None \<Rightarrow> [] | Some (HStr s) \<Rightarrow> [s] | Some (HArr ss) \<Rightarrow> ss)"

text \<open>A request for the tasks of one status.\<close>

definition of_status :: "string \<Rightarrow> request" where
  "of_status s = req0\<lparr>query := [''statusId'' \<mapsto> s]\<rparr>"

text \<open>A request for the tasks with status 1 that the current user created.\<close>

definition only_my :: "user option \<Rightarrow> request" where
  "only_my u = req0\<lparr>currentUser := u, query := [''statusId'' \<mapsto> ''1'', ''onlyMy'' \<mapsto> ''1'']\<rparr>"

section \<open>Facts about lists and records\<close>

lemma filter_empty_iff: "filter Q xs = [] \<longleftrightarrow> \<not> list_ex Q xs"
  by (simp add: list_ex_iff filter_empty_conv)

lemma filter_not_shorter_iff: "length (filter (\<lambda>x. \<not> Q x) xs) < length xs \<longleftrightarrow> list_ex Q xs"
proof
  assume "length (filter (\<lambda>x. \<not> Q x) xs) < length xs"
  then have "filter (\<lambda>x. \<not> Q x) xs \<noteq> xs" by auto
  then show "list_ex Q xs" by (auto simp: filter_id_conv list_ex_iff)
next
  assume "list_ex Q xs"
  then obtain x where "x \<in> set xs" "Q x" by (auto simp: list_ex_iff)
  then show "length (filter (\<lambda>x. \<not> Q x) xs) < length xs"
    by (intro length_filter_less[of x]) auto
qed

lemma filter_not_id_iff: "filter (\<lambda>x. \<not> Q x) xs = xs \<longleftrightarrow> \<not> list_ex Q xs"
  by (auto simp: filter_id_conv list_ex_iff)

lemma statuses_update_id_iff: "d\<lparr>statuses := ys\<rparr> = d \<longleftrightarrow> ys = statuses d"
  by (cases d) auto

section \<open>The status repository\<close>

text \<open>
  C9. \<^verbatim>\<open>statusRepo.remove(id)\<close> returns true exactly when no task references the id and
  a status row has it, which is exactly when the table of statuses lost a row; a false
  return leaves the database as it was. In particular it returns false, with nothing
  deleted, when no task references the id and no status row has it: a false return does
  not tell a blocked deletion from a missing status.
\<close>

theorem statusRepo_remove_true_iff_deleted:
  "(fst (statusRepo_remove eqv i d) \<longleftrightarrow>
      \<not> list_ex (\<lambda>t. eqv i (statusId t)) (tasks d) \<and> list_ex (\<lambda>s. eqv i (status_id s)) (statuses d))
   \<and> (fst (statusRepo_remove eqv i d) \<longleftrightarrow>
        length (statuses (snd (statusRepo_remove eqv i d))) < length (statuses d))
   \<and> (\<not> fst (statusRepo_remove eqv i d) \<longleftrightarrow> snd (statusRepo_remove eqv i d) = d)
   \<and> (\<not> list_ex (\<lambda>t. eqv i (statusId t)) (tasks d) \<and>
        \<not> list_ex (\<lambda>s. eqv i (status_id s)) (statuses d)
        \<longrightarrow> statusRepo_remove eqv i d = (False, d))"
  by (simp add: statusRepo_remove_def Let_def filter_empty_iff filter_not_shorter_iff
      filter_not_id_iff statuses_update_id_iff)

text \<open>On the sample data no task has status 3 and no status has id 3: the removal of
  status 3 returns false although nothing refers to it.\<close>

theorem statusRepo_remove_missing_status_witness:
  "\<not> list_ex (\<lambda>t. sql_eq P0 ''3'' (statusId t)) (tasks db0) \<and>
   statusRepo_remove (sql_eq P0) ''3'' db0 = (False, db0)"
proof -
  have h: "\<not> list_ex (\<lambda>t. sql_eq P0 ''3'' (statusId t)) (tasks db0)" by code_simp
  have h2: "\<not> list_ex (\<lambda>s. sql_eq P0 ''3'' (status_id s)) (statuses db0)" by code_simp
  from h h2 statusRepo_remove_true_iff_deleted[of "sql_eq P0" "''3''" db0] show ?thesis by blast
qed

lemma statusRepo_remove_blocked:
  "list_ex (\<lambda>t. eqv i (statusId t)) (tasks d) \<Longrightarrow> statusRepo_remove eqv i d = (False, d)"
  by (simp add: statusRepo_remove_def Let_def filter_empty_iff)

section \<open>Deleting what a task refers to\<close>

text \<open>
  C1. When a task row has the status id of the request, \<^verbatim>\<open>statusRepo.remove\<close> returns
  false and the database it leaves is the one it was given (a boolean and a database are
  all it can return: it has no call that throws); \<^verbatim>\<open>DELETE /statuses/:id\<close>
  then sends a redirect with a danger flash and throws nothing (the redirect of a request
  with no current user goes to the sign-in form, the other one to the list of statuses).
  For users: the removal of a user whom a task names as creator returns false and keeps
  the database (the user repository is the one written from the specification), and
  \<^verbatim>\<open>DELETE /users/:id\<close> answers a false return of \<^verbatim>\<open>userRepo.remove\<close>, whatever the
  repository is, with a redirect and a danger flash, not with an exception.
\<close>

theorem delete_referenced_is_blocked:
  "(list_ex (\<lambda>t. sql_eq P (params_id req) (statusId t)) (tasks d) \<longrightarrow>
      statusRepo_remove (sql_eq P) (params_id req) d = (False, d) \<and>
      statuses_delete P req rep d =
        ((None, redirect (setFlash P rep ''danger''
                   (if currentUser req = None then ''Access denied''
                    else ''Cannot delete status with assigned tasks''))
                 (if currentUser req = None then ''/session/new'' else ''/statuses'')), d))
   \<and> (list_ex (\<lambda>t. sql_eq P (params_id req) (creatorId t)) (tasks d) \<longrightarrow>
        spec_userRepo_remove (sql_eq P) (params_id req) d = (Inr False, d))
   \<and> (userRepo_remove R (params_id req) d = (Inr False, d1) \<longrightarrow>
        users_delete P R req rep d =
          (if (case currentUser req of None \<Rightarrow> True
               | Some u \<Rightarrow> String_of_int (user_id u) \<noteq> params_id req)
           then ((None, redirect (setFlash P rep ''danger'' ''Access denied'') ''/users''), d)
           else ((None, redirect (setFlash P rep ''danger''
                           ''Cannot delete user with assigned tasks'') ''/users''), d1)))"
  by (simp add: statusRepo_remove_blocked statuses_delete_def spec_userRepo_remove_def
      users_delete_def)

text \<open>On the sample data every task has status 1 and the first task was created by
  user 1 (Alice): Alice can delete neither status 1 nor herself.\<close>

theorem delete_referenced_is_blocked_witness:
  "statusRepo_remove (sql_eq P0) ''1'' db0 = (False, db0) \<and>
   statuses_delete P0 (req0\<lparr>currentUser := Some alice, params_id := ''1''\<rparr>) new_reply db0 =
     ((None, redirect (setFlash P0 new_reply ''danger'' ''Cannot delete status with assigned tasks'')
               ''/statuses''), db0) \<and>
   spec_userRepo_remove (sql_eq P0) ''1'' db0 = (Inr False, db0) \<and>
   users_delete P0 (spec_repos P0) (req0\<lparr>currentUser := Some alice, params_id := ''1''\<rparr>)
       new_reply db0 =
     ((None, redirect (setFlash P0 new_reply ''danger'' ''Cannot delete user with assigned tasks'')
               ''/users''), db0)"
proof -
  let ?req = "req0\<lparr>currentUser := Some alice, params_id := ''1''\<rparr>"
  have p: "params_id ?req = ''1''" and c: "currentUser ?req = Some alice" by simp_all
  have h1: "list_ex (\<lambda>t. sql_eq P0 (params_id ?req) (statusId t)) (tasks db0)"
    unfolding p by code_simp
  have h2: "list_ex (\<lambda>t. sql_eq P0 (params_id ?req) (creatorId t)) (tasks db0)"
    unfolding p by code_simp
  have s: "String_of_int (user_id alice) = ''1''" by code_simp
  note T = delete_referenced_is_blocked[of P0 ?req db0 new_reply "spec_repos P0" db0]
  from T h1 have a: "statusRepo_remove (sql_eq P0) ''1'' db0 = (False, db0)"
    and b: "statuses_delete P0 ?req new_reply db0 =
     ((None, redirect (setFlash P0 new_reply ''danger'' ''Cannot delete status with assigned tasks'')
               ''/statuses''), db0)" by simp_all
  from T h2 have u: "spec_userRepo_remove (sql_eq P0) ''1'' db0 = (Inr False, db0)" by simp
  have r: "userRepo_remove (spec_repos P0) (params_id ?req) db0 = (Inr False, db0)"
    using u by (simp add: spec_repos_def)
  from T r s have v: "users_delete P0 (spec_repos P0) ?req new_reply db0 =
     ((None, redirect (setFlash P0 new_reply ''danger'' ''Cannot delete user with assigned tasks'')
               ''/users''), db0)" by simp
  from a b u v show ?thesis by simp
qed

section \<open>The decimal digits of an integer\<close>

text \<open>\<^verbatim>\<open>String(a) !== String(b)\<close> on integers compares the integers: the digits of a number
  give the number back, and no digit is a minus sign.\<close>

lemma digits_value: "foldl (\<lambda>a c. 10 * a + (of_char c - 48)) 0 (digits n) = n"
proof (induction n rule: digits.induct)
  case (1 n)
  show ?case
  proof (cases "n < 10")
    case True
    then show ?thesis by (subst digits.simps) simp
  next
    case False
    with 1 have "foldl (\<lambda>a c. 10 * a + (of_char c - 48)) 0 (digits (n div 10)) = n div 10" by simp
    moreover have "n mod 10 < 10" by simp
    ultimately show ?thesis using False by (subst digits.simps) simp
  qed
qed

lemma digits_inj: "digits m = digits n \<Longrightarrow> m = n"
  by (metis digits_value)

lemma digits_no_minus: "CHR ''-'' \<notin> set (digits n)"
proof (induction n rule: digits.induct)
  case (1 n)
  have a: "char_of (48 + k) \<noteq> CHR ''-''" if "k < 10" for k :: nat
  proof
    assume "char_of (48 + k) = CHR ''-''"
    then have "of_char (char_of (48 + k) :: char) = (of_char CHR ''-'' :: nat)" by simp
    with that show False by simp
  qed
  show ?case
  proof (cases "n < 10")
    case True
    then show ?thesis by (subst digits.simps) (simp add: a a[symmetric])
  next
    case False
    with 1 have "CHR ''-'' \<notin> set (digits (n div 10))" by simp
    moreover have "n mod 10 < 10" by simp
    ultimately show ?thesis using False by (subst digits.simps) (simp add: a a[symmetric])
  qed
qed

lemma String_of_int_inj: "String_of_int a = String_of_int b \<longleftrightarrow> a = b"
proof
  assume e: "String_of_int a = String_of_int b"
  show "a = b"
  proof (cases "a < 0")
    case True
    then have "hd (String_of_int a) = CHR ''-''" by (simp add: String_of_int_def)
    with e have "hd (String_of_int b) = CHR ''-''" by simp
    have "b < 0"
    proof (rule ccontr)
      assume "\<not> b < 0"
      then have "String_of_int b = digits (nat b)" by (simp add: String_of_int_def)
      with e True have "CHR ''-'' # digits (nat (- a)) = digits (nat b)"
        by (simp add: String_of_int_def)
      then have "CHR ''-'' \<in> set (digits (nat b))" by (metis list.set_intros(1))
      then show False using digits_no_minus by blast
    qed
    with True e have "digits (nat (- a)) = digits (nat (- b))" by (simp add: String_of_int_def)
    then have "nat (- a) = nat (- b)" by (rule digits_inj)
    with True \<open>b < 0\<close> show ?thesis by simp
  next
    case False
    have "\<not> b < 0"
    proof
      assume "b < 0"
      with e False have "digits (nat a) = CHR ''-'' # digits (nat (- b))"
        by (simp add: String_of_int_def)
      then have "CHR ''-'' \<in> set (digits (nat a))" by (metis list.set_intros(1))
      then show False using digits_no_minus by blast
    qed
    with False e have "digits (nat a) = digits (nat b)" by (simp add: String_of_int_def)
    then have "nat a = nat b" by (rule digits_inj)
    with False \<open>\<not> b < 0\<close> show ?thesis by simp
  qed
qed simp

section \<open>Deleting a task\<close>

text \<open>
  C2. When \<^verbatim>\<open>taskRepo.findById\<close> finds the task, \<^verbatim>\<open>DELETE /tasks/:id\<close> calls
  \<^verbatim>\<open>taskRepo.remove\<close> if the request has a current user whose id is the task's creatorId:
  the database it leaves is the one \<^verbatim>\<open>taskRepo.remove\<close> returns, with a success flash and
  a redirect to \<^verbatim>\<open>/tasks\<close> (or the exception of \<^verbatim>\<open>taskRepo.remove\<close>). In every other case the
  database is left as it was, whatever \<^verbatim>\<open>taskRepo.remove\<close> would do, and the reply is a
  redirect to \<^verbatim>\<open>/tasks\<close> with the danger flash \<^verbatim>\<open>Access denied\<close>. When no task is found
  the reply is 404 and the database is left as it was. This holds for every task
  repository.
\<close>

theorem tasks_delete_only_by_creator:
  "(taskRepo_findById R (params_id req) d = Inr (Some tsk) \<longrightarrow>
      tasks_delete P R req rep d =
        (if (\<exists>u. currentUser req = Some u \<and> user_id u = creatorId tsk)
         then (case taskRepo_remove R (params_id req) d of
                 (None, d1) \<Rightarrow>
                   ((None, redirect (setFlash P rep ''success''
                              (i18n_t P (lang_of req) ''task.deleted'')) ''/tasks''), d1)
               | (Some e, d1) \<Rightarrow> ((Some e, rep), d1))
         else ((None, redirect (setFlash P rep ''danger'' ''Access denied'') ''/tasks''), d)))
   \<and> (taskRepo_findById R (params_id req) d = Inr None \<longrightarrow>
        tasks_delete P R req rep d = ((None, send (rep\<lparr>statusCode := 404\<rparr>) ''Not found''), d))"
  by (auto simp: tasks_delete_def String_of_int_inj split: option.splits prod.splits)

text \<open>With the task repository written from the specification, on the sample data: Alice
  created task 1 and deletes it, and its label row goes with it; Bob is denied and the
  database keeps the task; nobody can delete task 9, which does not exist.\<close>

theorem tasks_delete_only_by_creator_witness:
  "tasks_delete P0 (spec_repos P0) (req0\<lparr>currentUser := Some alice, params_id := ''1''\<rparr>)
       new_reply db0 =
     ((None, redirect (setFlash P0 new_reply ''success'' ''task.deleted'') ''/tasks''),
      db0\<lparr>tasks := [task2, task3], tasks_labels := []\<rparr>) \<and>
   tasks_delete P0 (spec_repos P0) (req0\<lparr>currentUser := Some bob, params_id := ''1''\<rparr>)
       new_reply db0 =
     ((None, redirect (setFlash P0 new_reply ''danger'' ''Access denied'') ''/tasks''), db0) \<and>
   tasks_delete P0 (spec_repos P0) (req0\<lparr>currentUser := Some alice, params_id := ''9''\<rparr>)
       new_reply db0 =
     ((None, send (new_reply\<lparr>statusCode := 404\<rparr>) ''Not found''), db0)"
proof -
  let ?a = "req0\<lparr>currentUser := Some alice, params_id := ''1''\<rparr>"
  let ?b = "req0\<lparr>currentUser := Some bob, params_id := ''1''\<rparr>"
  let ?c = "req0\<lparr>currentUser := Some alice, params_id := ''9''\<rparr>"
  have f1: "taskRepo_findById (spec_repos P0) ''1'' db0 = Inr (Some task1)" by code_simp
  have f9: "taskRepo_findById (spec_repos P0) ''9'' db0 = Inr None" by code_simp
  have r1: "taskRepo_remove (spec_repos P0) ''1'' db0 =
              (None, db0\<lparr>tasks := [task2, task3], tasks_labels := []\<rparr>)" by code_simp
  have ids: "user_id alice = creatorId task1" "user_id bob \<noteq> creatorId task1"
    by (simp_all add: alice_def bob_def task1_def)
  have l: "lang_of ?a = ''es''" by (simp add: lang_of_def or_else_def truthy_def req0_def)
  have t: "i18n_t P0 ''es'' ''task.deleted'' = ''task.deleted''" by (simp add: P0_def)
  have a: "tasks_delete P0 (spec_repos P0) ?a new_reply db0 =
     ((None, redirect (setFlash P0 new_reply ''success'' ''task.deleted'') ''/tasks''),
      db0\<lparr>tasks := [task2, task3], tasks_labels := []\<rparr>)"
    using tasks_delete_only_by_creator[of "spec_repos P0" ?a db0 task1 P0 new_reply] f1 r1 ids l t
    by simp
  have b: "tasks_delete P0 (spec_repos P0) ?b new_reply db0 =
     ((None, redirect (setFlash P0 new_reply ''danger'' ''Access denied'') ''/tasks''), db0)"
    using tasks_delete_only_by_creator[of "spec_repos P0" ?b db0 task1 P0 new_reply] f1 ids
    by simp
  have c: "tasks_delete P0 (spec_repos P0) ?c new_reply db0 =
     ((None, send (new_reply\<lparr>statusCode := 404\<rparr>) ''Not found''), db0)"
    using tasks_delete_only_by_creator[of "spec_repos P0" ?c db0 task1 P0 new_reply] f9
    by simp
  from a b c show ?thesis by simp
qed

section \<open>Registration and sign-in\<close>

lemma users_insert_duplicate:
  "attr_email attrs \<in> set (map email (users d)) \<Longrightarrow>
     isl (fst (users_insert attrs d)) \<and> snd (users_insert attrs d) = d"
  by (simp add: users_insert_def)

lemma users_insert_distinct:
  "distinct (map email (users d)) \<Longrightarrow> distinct (map email (users (snd (users_insert attrs d))))"
  by (auto simp: users_insert_def Let_def)

text \<open>
  C3. When \<^verbatim>\<open>userRepo.findByEmail\<close> returns a user for the email of the form,
  \<^verbatim>\<open>POST /users\<close> leaves the database as it was, whatever \<^verbatim>\<open>userRepo.create\<close> would do,
  and sends a redirect to \<^verbatim>\<open>/users/new\<close> with a danger flash: \<^verbatim>\<open>Email already in use\<close>, or
  the validation error when a required field is empty or the password is shorter than
  three characters. This holds for every user repository. Under the schema an insert
  into \<^verbatim>\<open>users\<close> of a row whose email is in the table fails and changes nothing, and
  an insert keeps the emails of the table distinct.
\<close>

theorem users_post_duplicate_email:
  "(userRepo_findByEmail R (field (data_of req) ''email'') d = Inr (Some existing) \<longrightarrow>
      users_post P R req rep d =
        ((None, redirect (setFlash P rep ''danger''
                   (if field (data_of req) ''firstName'' = [] \<or>
                       field (data_of req) ''lastName'' = [] \<or>
                       field (data_of req) ''email'' = [] \<or>
                       field (data_of req) ''password'' = [] \<or>
                       length (field (data_of req) ''password'') < 3
                    then ''Validation error: check required fields''
                    else ''Email already in use''))
                 ''/users/new''), d))
   \<and> (attr_email attrs \<in> set (map email (users d)) \<longrightarrow>
        isl (fst (users_insert attrs d)) \<and> snd (users_insert attrs d) = d)
   \<and> (distinct (map email (users d)) \<longrightarrow>
        distinct (map email (users (snd (users_insert attrs d)))))"
  using users_insert_duplicate[of attrs d] users_insert_distinct[of d attrs]
  by (simp add: users_post_def Let_def)

text \<open>On the sample data, with the repository written from the specification: a
  registration with Alice's email is turned away and the database is the same; the insert
  of such a row fails.\<close>

theorem users_post_duplicate_email_witness:
  "users_post P0 (spec_repos P0) form_alice new_reply db0 =
     ((None, redirect (setFlash P0 new_reply ''danger'' ''Email already in use'') ''/users/new''),
      db0) \<and>
   isl (fst (users_insert \<lparr>attr_firstName = ''Eve'', attr_lastName = ''E'',
                           attr_email = ''alice@example.com'', attr_password = ''x''\<rparr> db0)) \<and>
   distinct (map email (users (snd (users_insert
      \<lparr>attr_firstName = ''Eve'', attr_lastName = ''E'', attr_email = ''eve@example.com'',
       attr_password = ''x''\<rparr> db0))))"
proof -
  let ?dup = "\<lparr>attr_firstName = ''Eve'', attr_lastName = ''E'',
               attr_email = ''alice@example.com'', attr_password = ''x''\<rparr>"
  let ?new = "\<lparr>attr_firstName = ''Eve'', attr_lastName = ''E'',
               attr_email = ''eve@example.com'', attr_password = ''x''\<rparr>"
  have fs: "field (data_of form_alice) ''firstName'' = ''Eve''"
    "field (data_of form_alice) ''lastName'' = ''E''"
    "field (data_of form_alice) ''email'' = ''alice@example.com''"
    "field (data_of form_alice) ''password'' = ''secret''"
    by (simp_all add: form_alice_def data_of_def field_def)
  have f: "userRepo_findByEmail (spec_repos P0) ''alice@example.com'' db0 = Inr (Some alice)"
    by code_simp
  have m: "attr_email ?dup \<in> set (map email (users db0))" by code_simp
  have dst: "distinct (map email (users db0))" by code_simp
  have a: "users_post P0 (spec_repos P0) form_alice new_reply db0 =
     ((None, redirect (setFlash P0 new_reply ''danger'' ''Email already in use'') ''/users/new''),
      db0)"
    using users_post_duplicate_email[of "spec_repos P0" form_alice db0 alice P0 new_reply ?dup] f fs
    by simp
  have b: "isl (fst (users_insert ?dup db0))"
    using users_post_duplicate_email[of "spec_repos P0" form_alice db0 alice P0 new_reply ?dup] m
    by blast
  have c: "distinct (map email (users (snd (users_insert ?new db0))))"
    using users_post_duplicate_email[of "spec_repos P0" form_alice db0 alice P0 new_reply ?new] dst
    by blast
  from a b c show ?thesis by simp
qed

lemma setFlash_fresh:
  "setCookieHeader (setFlash P new_reply ty msg) =
     Some (HStr (''flash='' @ encodeURIComponent P
                   (JSON_stringify P \<lparr>flash_type = ty, flash_message = msg\<rparr>) @ ''; Path=/''))"
  by (simp add: setFlash_def setCookie_def serializeCookie_def new_reply_def no_opts_def
      truthy_def)

text \<open>
  C4. \<^verbatim>\<open>POST /session\<close>: when \<^verbatim>\<open>userRepo.findByEmail\<close> finds no user for the email of the
  form, or finds one and \<^verbatim>\<open>bcrypt.compare\<close> of the password of the form with the stored
  hash is false, the reply is a redirect to \<^verbatim>\<open>/session/new\<close> with the danger flash
  \<^verbatim>\<open>Invalid credentials\<close>, and the only cookie it sets is the flash. When the comparison
  is true the reply sets the cookie \<^verbatim>\<open>userId\<close> to the id of the user, then the success
  flash, and redirects to \<^verbatim>\<open>/\<close>. This holds for every user repository and every
  \<^verbatim>\<open>bcrypt.compare\<close>.
\<close>

theorem session_post_credentials:
  "(userRepo_findByEmail R (field (data_of req) ''email'') d = Inr None \<longrightarrow>
      session_post P R req rep d =
        (None, redirect (setFlash P rep ''danger'' ''Invalid credentials'') ''/session/new''))
   \<and> (userRepo_findByEmail R (field (data_of req) ''email'') d = Inr (Some u) \<longrightarrow>
        session_post P R req rep d =
          (if bcrypt_compare P (field (data_of req) ''password'') (password u)
           then (None, redirect
                   (setFlash P
                      (setCookie P rep ''userId'' (String_of_int (user_id u))
                         (no_opts\<lparr>path := Some ''/''\<rparr>))
                      ''success'' ''Signed in'') ''/'')
           else (None, redirect (setFlash P rep ''danger'' ''Invalid credentials'')
                         ''/session/new'')))
   \<and> setCookieHeader (redirect (setFlash P new_reply ''danger'' ''Invalid credentials'')
                        ''/session/new'') =
       Some (HStr (''flash='' @ encodeURIComponent P
                     (JSON_stringify P
                        \<lparr>flash_type = ''danger'', flash_message = ''Invalid credentials''\<rparr>)
                   @ ''; Path=/''))
   \<and> setCookieHeader (redirect
          (setFlash P
             (setCookie P new_reply ''userId'' (String_of_int (user_id u))
                (no_opts\<lparr>path := Some ''/''\<rparr>))
             ''success'' ''Signed in'') ''/'') =
       Some (HArr [''userId='' @ encodeURIComponent P (String_of_int (user_id u)) @ ''; Path=/'',
                   ''flash='' @ encodeURIComponent P
                     (JSON_stringify P \<lparr>flash_type = ''success'', flash_message = ''Signed in''\<rparr>)
                   @ ''; Path=/''])"
  by (simp add: session_post_def Let_def redirect_def setFlash_fresh)
    (simp add: setFlash_def setCookie_def serializeCookie_def new_reply_def no_opts_def
      truthy_def)

text \<open>On the sample data, with the repository written from the specification: Alice's
  password is \<^verbatim>\<open>secret\<close>. The wrong password and the unknown email are turned away; the
  right password sets the cookie \<^verbatim>\<open>userId=1\<close>.\<close>

theorem session_post_credentials_witness:
  "session_post P0 (spec_repos P0) (login ''alice@example.com'' ''wrong'') new_reply db0 =
     (None, redirect (setFlash P0 new_reply ''danger'' ''Invalid credentials'') ''/session/new'') \<and>
   session_post P0 (spec_repos P0) (login ''eve@example.com'' ''secret'') new_reply db0 =
     (None, redirect (setFlash P0 new_reply ''danger'' ''Invalid credentials'') ''/session/new'') \<and>
   session_post P0 (spec_repos P0) (login ''alice@example.com'' ''secret'') new_reply db0 =
     (None, redirect (setFlash P0 (setCookie P0 new_reply ''userId'' ''1'' (no_opts\<lparr>path := Some ''/''\<rparr>))
              ''success'' ''Signed in'') ''/'')"
proof -
  have fs: "field (data_of (login m p)) ''email'' = m"
    "field (data_of (login m p)) ''password'' = p" for m p
    by (simp_all add: login_def data_of_def field_def)
  have fa: "userRepo_findByEmail (spec_repos P0) ''alice@example.com'' db0 = Inr (Some alice)"
    by code_simp
  have fe: "userRepo_findByEmail (spec_repos P0) ''eve@example.com'' db0 = Inr None"
    by code_simp
  have cw: "\<not> bcrypt_compare P0 ''wrong'' (password alice)" by code_simp
  have cr: "bcrypt_compare P0 ''secret'' (password alice)" by code_simp
  have s: "String_of_int (user_id alice) = ''1''" by code_simp
  have a: "session_post P0 (spec_repos P0) (login ''alice@example.com'' ''wrong'') new_reply db0 =
     (None, redirect (setFlash P0 new_reply ''danger'' ''Invalid credentials'') ''/session/new'')"
    using session_post_credentials[of "spec_repos P0" "login ''alice@example.com'' ''wrong''"
        db0 P0 new_reply alice] fa cw
    by (simp add: fs)
  have b: "session_post P0 (spec_repos P0) (login ''eve@example.com'' ''secret'') new_reply db0 =
     (None, redirect (setFlash P0 new_reply ''danger'' ''Invalid credentials'') ''/session/new'')"
    using session_post_credentials[of "spec_repos P0" "login ''eve@example.com'' ''secret''"
        db0 P0 new_reply alice] fe
    by (simp add: fs)
  have c: "session_post P0 (spec_repos P0) (login ''alice@example.com'' ''secret'') new_reply db0 =
     (None, redirect (setFlash P0 (setCookie P0 new_reply ''userId'' ''1'' (no_opts\<lparr>path := Some ''/''\<rparr>))
              ''success'' ''Signed in'') ''/'')"
    using session_post_credentials[of "spec_repos P0" "login ''alice@example.com'' ''secret''"
        db0 P0 new_reply alice] fa cr s
    by (simp add: fs)
  from a b c show ?thesis by simp
qed

section \<open>The error handler\<close>

text \<open>
  C8. An exception a handler throws reaches the error handler. When \<^verbatim>\<open>getRollbar()\<close>
  yields a collaborator, its \<^verbatim>\<open>error\<close> is called with the exception and
  \<^verbatim>\<open>request.raw\<close>: the collaborator's state afterwards is the one that call leaves. When
  there is no collaborator, nothing is reported. Whatever the exception, the collaborator
  and the outcome of the report are, the reply has status 500, type \<^verbatim>\<open>text/html\<close> and
  the body \<^verbatim>\<open>Internal Server Error\<close>: two exceptions get the same reply.
\<close>

theorem errorHandler_forwards_and_answers_500:
  "respond g req (Some err, rep) m = errorHandler g err req rep m
   \<and> (g = Inr (Some rb) \<longrightarrow>
        collaborator (snd (errorHandler g err req rep m)) =
          snd (rollbar_error rb err (raw req) (collaborator m)))
   \<and> (g = Inr None \<longrightarrow> snd (errorHandler g err req rep m) = m)
   \<and> fst (errorHandler g err req rep m) =
        rep\<lparr>statusCode := 500, contentType := Some ''text/html'',
            payload := Some ''Internal Server Error''\<rparr>
   \<and> fst (errorHandler g err req rep m) = fst (errorHandler g' err' req' rep m')"
  by (simp add: respond_def errorHandler_def send_def Let_def split: prod.splits option.splits)

text \<open>The debug route throws. With the recording collaborator the exception and the raw
  request are recorded; with the failing one the failure is logged; with none nothing
  happens. The reply is the same each time.\<close>

theorem errorHandler_forwards_and_answers_500_witness:
  "respond (Inr (Some recording)) req0 (debug_rollbar req0 new_reply) monitor0 =
     (new_reply\<lparr>statusCode := 500, contentType := Some ''text/html'',
                payload := Some ''Internal Server Error''\<rparr>,
      monitor0\<lparr>collaborator := [(JsError ''Debug rollbar error: manual trigger'', raw req0)]\<rparr>) \<and>
   respond (Inr None) req0 (debug_rollbar req0 new_reply) monitor0 =
     (new_reply\<lparr>statusCode := 500, contentType := Some ''text/html'',
                payload := Some ''Internal Server Error''\<rparr>, monitor0) \<and>
   fst (respond (Inr (Some failing)) req0 (debug_rollbar req0 new_reply) monitor0) =
     new_reply\<lparr>statusCode := 500, contentType := Some ''text/html'',
               payload := Some ''Internal Server Error''\<rparr>"
proof -
  let ?e = "JsError ''Debug rollbar error: manual trigger''"
  have d: "debug_rollbar req0 new_reply = (Some ?e, new_reply)" by (simp add: debug_rollbar_def)
  have r: "snd (rollbar_error recording ?e (raw req0) (collaborator monitor0)) = [(?e, raw req0)]"
    by (simp add: recording_def monitor0_def)
  have l: "log (snd (errorHandler (Inr (Some recording)) ?e req0 new_reply monitor0)) = []"
    by (simp add: errorHandler_def recording_def monitor0_def)
  note T = errorHandler_forwards_and_answers_500
  from T[of "Inr (Some recording)" req0 ?e new_reply monitor0 recording "Inr None" ?e req0 monitor0] r
  have a1: "respond (Inr (Some recording)) req0 (Some ?e, new_reply) monitor0 =
              errorHandler (Inr (Some recording)) ?e req0 new_reply monitor0"
    and a2: "collaborator (snd (errorHandler (Inr (Some recording)) ?e req0 new_reply monitor0)) =
              [(?e, raw req0)]"
    and a3: "fst (errorHandler (Inr (Some recording)) ?e req0 new_reply monitor0) =
              new_reply\<lparr>statusCode := 500, contentType := Some ''text/html'',
                payload := Some ''Internal Server Error''\<rparr>"
    by simp_all
  have a4: "snd (errorHandler (Inr (Some recording)) ?e req0 new_reply monitor0) =
              monitor0\<lparr>collaborator := [(?e, raw req0)]\<rparr>"
    using a2 l by (cases "snd (errorHandler (Inr (Some recording)) ?e req0 new_reply monitor0)")
      (simp add: monitor0_def)
  have a: "respond (Inr (Some recording)) req0 (debug_rollbar req0 new_reply) monitor0 =
     (new_reply\<lparr>statusCode := 500, contentType := Some ''text/html'',
                payload := Some ''Internal Server Error''\<rparr>,
      monitor0\<lparr>collaborator := [(?e, raw req0)]\<rparr>)"
    unfolding d using a1 a3 a4 by (simp add: prod_eq_iff)
  from T[of "Inr None" req0 ?e new_reply monitor0 recording "Inr None" ?e req0 monitor0]
  have b: "respond (Inr None) req0 (debug_rollbar req0 new_reply) monitor0 =
     (new_reply\<lparr>statusCode := 500, contentType := Some ''text/html'',
                payload := Some ''Internal Server Error''\<rparr>, monitor0)"
    unfolding d by (simp add: prod_eq_iff)
  from T[of "Inr (Some failing)" req0 ?e new_reply monitor0 failing "Inr None" ?e req0 monitor0]
  have c: "fst (respond (Inr (Some failing)) req0 (debug_rollbar req0 new_reply) monitor0) =
     new_reply\<lparr>statusCode := 500, contentType := Some ''text/html'',
               payload := Some ''Internal Server Error''\<rparr>"
    unfolding d by simp
  from a b c show ?thesis by simp
qed

section \<open>Parsing cookies\<close>

lemma cookie_step_eq:
  "cookie_step decode acc p =
     (if CHR ''='' \<in> set p then obj_set acc (pair_key p) (pair_value decode p) else acc)"
proof (cases "CHR ''='' \<in> set p")
  case False
  then show ?thesis by (simp add: cookie_step_def indexOf_def)
next
  case True
  let ?n = "length (takeWhile (\<lambda>x. x \<noteq> CHR ''='') p)"
  have k: "take ?n p = takeWhile (\<lambda>x. x \<noteq> CHR ''='') p"
    by (rule takeWhile_eq_take[symmetric])
  have v: "drop (Suc ?n) p = tl (dropWhile (\<lambda>x. x \<noteq> CHR ''='') p)"
    by (simp add: dropWhile_eq_drop drop_Suc tl_drop)
  from True show ?thesis
    by (simp add: cookie_step_def indexOf_def Let_def k v pair_key_def pair_value_def
        pair_raw_def split: option.split)
qed

lemma foldl_cookie_step_lookup:
  "k \<noteq> ''__proto__'' \<Longrightarrow>
     foldl (cookie_step decode) acc ps k =
       (case filter (\<lambda>p. CHR ''='' \<in> set p \<and> pair_key p = k) ps of
          [] \<Rightarrow> acc k
        | q # qs \<Rightarrow> Some (pair_value decode (last (q # qs))))"
proof (induction ps rule: rev_induct)
  case Nil
  then show ?case by simp
next
  case (snoc p ps)
  then show ?case
    by (auto simp: cookie_step_eq obj_set_def split: list.splits)
qed

lemma foldl_cookie_step_proto:
  "foldl (cookie_step decode) acc ps ''__proto__'' = acc ''__proto__''"
  by (induction ps rule: rev_induct) (auto simp: cookie_step_eq obj_set_def)

lemma parseCookies_pairs:
  "parseCookies decode (Some h) = foldl (cookie_step decode) Map.empty (cookie_pairs h)"
proof (cases "h = []")
  case True
  have "cookie_pairs [] = []" by (simp add: cookie_pairs_def trim_def)
  with True show ?thesis by (simp add: parseCookies_def)
next
  case False
  then show ?thesis by (simp add: parseCookies_def cookie_pairs_def)
qed

text \<open>
  C10. \<^verbatim>\<open>parseCookies\<close> is a function of every header: it has no way to throw, the one
  call that can throw (\<^verbatim>\<open>decodeURIComponent\<close>, whose \<open>None\<close> is the exception) being
  caught. A missing and an empty header give the empty object. For any header, the value
  under a key is that of the last pair with an \<^verbatim>\<open>=\<close> and that key, decoded, or raw when
  the decoding throws; a pair with no \<^verbatim>\<open>=\<close> changes nothing. (The key \<^verbatim>\<open>__proto__\<close>
  never becomes a property: the assignment of a string to it is ignored.) When
  \<^verbatim>\<open>JSON.parse\<close> throws on the flash cookie, \<^verbatim>\<open>getFlash\<close> returns null and leaves the reply
  as it was.
\<close>

theorem parseCookies_total:
  "parseCookies decode None = Map.empty \<and> parseCookies decode (Some []) = Map.empty
   \<and> (k \<noteq> ''__proto__'' \<longrightarrow>
        parseCookies decode (Some h) k =
          (case filter (\<lambda>p. CHR ''='' \<in> set p \<and> pair_key p = k) (cookie_pairs h) of
             [] \<Rightarrow> None
           | q # qs \<Rightarrow> Some (pair_value decode (last (q # qs)))))
   \<and> parseCookies decode (Some h) ''__proto__'' = None
   \<and> (CHR ''='' \<notin> set pair \<longrightarrow> cookie_step decode acc pair = acc)
   \<and> (decode (pair_raw pair) = None \<longrightarrow> pair_value decode pair = pair_raw pair)
   \<and> (cks ''flash'' = Some v \<and> JSON_parse P v = None \<longrightarrow> getFlash P cks rep = (None, rep))"
proof -
  have a: "parseCookies decode None = Map.empty \<and> parseCookies decode (Some []) = Map.empty"
    by (simp add: parseCookies_def)
  have b: "k \<noteq> ''__proto__'' \<longrightarrow>
        parseCookies decode (Some h) k =
          (case filter (\<lambda>p. CHR ''='' \<in> set p \<and> pair_key p = k) (cookie_pairs h) of
             [] \<Rightarrow> None
           | q # qs \<Rightarrow> Some (pair_value decode (last (q # qs))))"
    by (simp add: parseCookies_pairs foldl_cookie_step_lookup)
  have c: "parseCookies decode (Some h) ''__proto__'' = None"
    by (simp add: parseCookies_pairs foldl_cookie_step_proto)
  have d: "CHR ''='' \<notin> set pair \<longrightarrow> cookie_step decode acc pair = acc"
    by (simp add: cookie_step_eq)
  have e: "decode (pair_raw pair) = None \<longrightarrow> pair_value decode pair = pair_raw pair"
    by (simp add: pair_value_def)
  have f: "cks ''flash'' = Some v \<and> JSON_parse P v = None \<longrightarrow> getFlash P cks rep = (None, rep)"
    by (simp add: getFlash_def Let_def)
  from a b c d e f show ?thesis by blast
qed

text \<open>A header with a good pair, a value that does not decode, a segment with no
  \<^verbatim>\<open>=\<close>, an empty key and padding: the value that does not decode is kept raw, the
  segment \<^verbatim>\<open>x\<close> leaves no entry. The flash cookie \<^verbatim>\<open>%\<close> is not JSON: \<^verbatim>\<open>getFlash\<close> is
  null.\<close>

theorem parseCookies_total_witness:
  "parseCookies sample_decode (Some ''userId=1; flash=%; x; =y; k = v '') ''userId'' = Some ''1'' \<and>
   parseCookies sample_decode (Some ''userId=1; flash=%; x; =y; k = v '') ''flash'' = Some ''%'' \<and>
   parseCookies sample_decode (Some ''userId=1; flash=%; x; =y; k = v '') ''x'' = None \<and>
   parseCookies sample_decode (Some ''userId=1; flash=%; x; =y; k = v '') ''k'' = Some ''v'' \<and>
   cookie_step sample_decode Map.empty ''x'' = Map.empty \<and>
   pair_value sample_decode ''flash=%'' = ''%'' \<and>
   getFlash P0 (parseCookies sample_decode (Some ''userId=1; flash=%; x; =y; k = v '')) new_reply
     = (None, new_reply)"
proof -
  let ?h = "''userId=1; flash=%; x; =y; k = v ''"
  let ?c = "parseCookies sample_decode (Some ?h)"
  have ps: "cookie_pairs ?h = [''userId=1'', ''flash=%'', ''x'', ''=y'', ''k = v'']"
    by code_simp
  have keys: "pair_key ''userId=1'' = ''userId''" "pair_key ''flash=%'' = ''flash''"
    "pair_key ''=y'' = []" "pair_key ''k = v'' = ''k''"
    by code_simp+
  have vals: "pair_value sample_decode ''userId=1'' = ''1''"
    "pair_value sample_decode ''k = v'' = ''v''"
    by code_simp+
  have raw: "pair_raw ''flash=%'' = ''%''" by code_simp
  have dec: "sample_decode ''%'' = None" by simp
  have js: "JSON_parse P0 ''%'' = None" by code_simp
  have noeq: "CHR ''='' \<notin> set ''x''" by simp
  note T = parseCookies_total[where decode = sample_decode and h = ?h and P = P0
      and pair = "''flash=%''" and acc = Map.empty and rep = new_reply and cks = ?c and v = "''%''"]
  note U = parseCookies_total[where decode = sample_decode and pair = "''x''" and acc = Map.empty]
  from T[where k = "''userId''"] have a: "?c ''userId'' = Some ''1''"
    by (simp add: ps keys vals)
  from T[where k = "''flash''"] raw dec have b: "?c ''flash'' = Some ''%''"
    by (simp add: ps keys)
  from T[where k = "''x''"] have c: "?c ''x'' = None"
    by (simp add: ps keys)
  from T[where k = "''k''"] have d: "?c ''k'' = Some ''v''"
    by (simp add: ps keys vals)
  from U noeq have e: "cookie_step sample_decode Map.empty ''x'' = Map.empty" by blast
  from T[where k = "''k''"] raw dec have f: "pair_value sample_decode ''flash=%'' = ''%''"
    by simp
  from T[where k = "''k''"] b js have g: "getFlash P0 ?c new_reply = (None, new_reply)"
    by simp
  from a b c d e f g show ?thesis by simp
qed

section \<open>The flash message\<close>

lemma set_cookies_setCookie:
  "set_cookies (setCookie P rep name val opts) =
     (if setCookieHeader rep = Some (HStr []) then [] else set_cookies rep)
     @ [serializeCookie P name val opts]"
  by (simp add: set_cookies_def setCookie_def Let_def split: option.splits header_value.splits)

lemma serializeCookie_clear:
  "serializeCookie P name [] (no_opts\<lparr>expires := Some 0, path := Some ''/''\<rparr>) =
     name @ ''='' @ encodeURIComponent P [] @ ''; Path=/; Expires='' @ toUTCString P 0"
  by (simp add: serializeCookie_def no_opts_def truthy_def)

text \<open>
  C6, as the claim states it, fails: a request can carry a flash cookie that is not JSON.
  For the header \<^verbatim>\<open>flash=%7B\<close> the cookie is \<^verbatim>\<open>{\<close>; \<^verbatim>\<open>getFlash\<close> returns null, not a
  parsed payload, and sets no header that clears the cookie.
\<close>

theorem getFlash_not_json_counterexample:
  "parseCookies (decodeURIComponent P0) (Some ''flash=%7B'') ''flash'' = Some ''{'' \<and>
   getFlash P0 (parseCookies (decodeURIComponent P0) (Some ''flash=%7B'')) new_reply =
     (None, new_reply) \<and>
   set_cookies new_reply = []"
proof -
  have c: "parseCookies (decodeURIComponent P0) (Some ''flash=%7B'') ''flash'' = Some ''{''"
    by code_simp
  have j: "JSON_parse P0 ''{'' = None" by code_simp
  have s: "set_cookies new_reply = []" by (simp add: set_cookies_def new_reply_def)
  from c j s show ?thesis by (simp add: getFlash_def truthy_def)
qed

text \<open>
  C6, amended. When the flash cookie of the request is a non-empty string that
  \<^verbatim>\<open>JSON.parse\<close> accepts, \<^verbatim>\<open>getFlash\<close> returns the parsed value and sets, on the same
  reply, one more cookie header: \<^verbatim>\<open>flash=\<close> with the empty value, \<^verbatim>\<open>Path=/\<close> and an
  expiry at time 0, which tells the client to drop the cookie. When the request has no
  flash cookie, or an empty one, or one that \<^verbatim>\<open>JSON.parse\<close> rejects, \<^verbatim>\<open>getFlash\<close> returns
  null and leaves the reply as it was. So a request that comes without the cookie, as
  the requests after the clearing do, gets no flash.
\<close>

theorem getFlash_one_shot:
  "(cks ''flash'' = Some v \<and> v \<noteq> [] \<and> JSON_parse P v = Some parsed \<longrightarrow>
      fst (getFlash P cks rep) = Some parsed \<and>
      snd (getFlash P cks rep) =
        setCookie P rep ''flash'' [] (no_opts\<lparr>expires := Some 0, path := Some ''/''\<rparr>) \<and>
      last (set_cookies (snd (getFlash P cks rep))) =
        ''flash='' @ encodeURIComponent P [] @ ''; Path=/; Expires='' @ toUTCString P 0)
   \<and> (cks ''flash'' = None \<or> cks ''flash'' = Some [] \<or>
        (cks ''flash'' = Some v \<and> JSON_parse P v = None) \<longrightarrow>
        getFlash P cks rep = (None, rep))"
proof -
  let ?o = "no_opts\<lparr>expires := Some 0, path := Some ''/''\<rparr>"
  have a: "cks ''flash'' = Some v \<and> v \<noteq> [] \<and> JSON_parse P v = Some parsed \<longrightarrow>
      getFlash P cks rep = (Some parsed, setCookie P rep ''flash'' [] ?o)"
    by (simp add: getFlash_def Let_def truthy_def clearCookie_def no_opts_def)
  have b: "last (set_cookies (setCookie P rep ''flash'' [] ?o)) =
      ''flash='' @ encodeURIComponent P [] @ ''; Path=/; Expires='' @ toUTCString P 0"
    by (simp add: set_cookies_setCookie serializeCookie_clear)
  have c: "cks ''flash'' = None \<or> cks ''flash'' = Some [] \<or>
        (cks ''flash'' = Some v \<and> JSON_parse P v = None) \<longrightarrow>
        getFlash P cks rep = (None, rep)"
    by (auto simp: getFlash_def Let_def truthy_def)
  from a b c show ?thesis by auto
qed

text \<open>The flash that \<^verbatim>\<open>setFlash\<close> wrote comes back once: the request that carries it
  gets it, with the header that clears it; the next request, without the cookie, gets
  null.\<close>

theorem getFlash_one_shot_witness:
  "getFlash P0
     (parseCookies sample_decode
        (Some ''flash=%7B%22type%22%3A%22danger%22%2C%22message%22%3A%22Access%20denied%22%7D''))
     new_reply =
     (Some \<lparr>flash_type = ''danger'', flash_message = ''Access denied''\<rparr>,
      new_reply\<lparr>setCookieHeader :=
                  Some (HStr ''flash=; Path=/; Expires=Thu, 01 Jan 1970 00:00:00 GMT'')\<rparr>) \<and>
   getFlash P0 (parseCookies sample_decode None) new_reply = (None, new_reply)"
proof -
  let ?c = "parseCookies sample_decode
        (Some ''flash=%7B%22type%22%3A%22danger%22%2C%22message%22%3A%22Access%20denied%22%7D'')"
  let ?v = "sample_stringify \<lparr>flash_type = ''danger'', flash_message = ''Access denied''\<rparr>"
  let ?f = "\<lparr>flash_type = ''danger'', flash_message = ''Access denied''\<rparr>"
  have c: "?c ''flash'' = Some ?v" by code_simp
  have n: "?v \<noteq> []" by (simp add: sample_stringify_def)
  have j: "JSON_parse P0 ?v = Some ?f" by code_simp
  have e: "parseCookies sample_decode None ''flash'' = None" by (simp add: parseCookies_def)
  have h: "setCookie P0 new_reply ''flash'' [] (no_opts\<lparr>expires := Some 0, path := Some ''/''\<rparr>) =
      new_reply\<lparr>setCookieHeader :=
                  Some (HStr ''flash=; Path=/; Expires=Thu, 01 Jan 1970 00:00:00 GMT'')\<rparr>"
    by (simp add: setCookie_def serializeCookie_clear new_reply_def P0_def sample_encode_def)
  from getFlash_one_shot[of ?c ?v P0 ?f new_reply] c n j h
  have a: "getFlash P0 ?c new_reply =
     (Some ?f, new_reply\<lparr>setCookieHeader :=
                  Some (HStr ''flash=; Path=/; Expires=Thu, 01 Jan 1970 00:00:00 GMT'')\<rparr>)"
    by (simp add: prod_eq_iff)
  from getFlash_one_shot[of "parseCookies sample_decode None" ?v P0 ?f new_reply] e
  have b: "getFlash P0 (parseCookies sample_decode None) new_reply = (None, new_reply)"
    by simp
  from a b show ?thesis by simp
qed

section \<open>The method override\<close>

lemma toUpperCase_Nil_iff: "toUpperCase s = [] \<longleftrightarrow> s = []"
  by (simp add: toUpperCase_def)

lemma toUpperCase_Nil: "toUpperCase [] = []"
  by (simp add: toUpperCase_def)

text \<open>
  C7. The hook does not do what the claim says. For a POST whose body has a field
  \<^verbatim>\<open>_method\<close> that upper-cases to PATCH, DELETE or PUT, the hook writes the verb to
  \<^verbatim>\<open>request.raw.method\<close> and then throws: the assignment to \<^verbatim>\<open>request.method\<close> is a
  \<^verbatim>\<open>TypeError\<close>. The hook's exception goes to the error handler, whose reply is the
  status 500: the form is handled by no route. A POST with no body, with no field
  \<^verbatim>\<open>_method\<close>, or with one that upper-cases to anything else leaves the hook as it came,
  and so does a request whose method is not POST.
\<close>

theorem preHandler_override_throws:
  "(req_method req = ''POST'' \<and> body req = Some b \<and> body_method b = Some s \<and>
      toUpperCase s \<in> {''PATCH'', ''DELETE'', ''PUT''} \<longrightarrow>
      preHandler req =
        (Some (JsError ''TypeError: Cannot set property method, which has only a getter''),
         req\<lparr>raw := (raw req)\<lparr>raw_method := toUpperCase s\<rparr>\<rparr>))
   \<and> (req_method req = ''POST'' \<and>
        (body req = None \<or>
         (\<exists>b. body req = Some b \<and>
              (body_method b = None \<or>
               (\<exists>s. body_method b = Some s \<and>
                    toUpperCase s \<notin> {''PATCH'', ''DELETE'', ''PUT''})))) \<longrightarrow>
        preHandler req = (None, req))
   \<and> (req_method req \<noteq> ''POST'' \<longrightarrow> preHandler req = (None, req))
   \<and> (fst (preHandler req) = Some err \<longrightarrow>
        fst (errorHandler g err (snd (preHandler req)) rep m) =
          rep\<lparr>statusCode := 500, contentType := Some ''text/html'',
              payload := Some ''Internal Server Error''\<rparr>)"
proof -
  have a: "req_method req = ''POST'' \<and> body req = Some b \<and> body_method b = Some s \<and>
      toUpperCase s \<in> {''PATCH'', ''DELETE'', ''PUT''} \<longrightarrow>
      preHandler req =
        (Some (JsError ''TypeError: Cannot set property method, which has only a getter''),
         req\<lparr>raw := (raw req)\<lparr>raw_method := toUpperCase s\<rparr>\<rparr>)"
    by (auto simp: preHandler_def truthy_def Let_def toUpperCase_Nil toUpperCase_Nil_iff)
  have b: "req_method req = ''POST'' \<and>
        (body req = None \<or>
         (\<exists>b. body req = Some b \<and>
              (body_method b = None \<or>
               (\<exists>s. body_method b = Some s \<and>
                    toUpperCase s \<notin> {''PATCH'', ''DELETE'', ''PUT''})))) \<longrightarrow>
        preHandler req = (None, req)"
    by (auto simp: preHandler_def truthy_def Let_def toUpperCase_Nil toUpperCase_Nil_iff
        split: option.splits)
  have c: "req_method req \<noteq> ''POST'' \<longrightarrow> preHandler req = (None, req)"
    by (simp add: preHandler_def)
  have d: "fst (errorHandler g err (snd (preHandler req)) rep m) =
          rep\<lparr>statusCode := 500, contentType := Some ''text/html'',
              payload := Some ''Internal Server Error''\<rparr>"
    by (simp add: errorHandler_def send_def Let_def split: prod.splits option.splits sum.splits)
  from a b c d show ?thesis by blast
qed

text \<open>A form that asks for DELETE in lower case: the hook throws, with DELETE written to
  the raw request, and the reply is the status 500. A form that asks for GET, a form with
  no \<^verbatim>\<open>_method\<close> and a GET request pass the hook unchanged.\<close>

theorem preHandler_override_throws_witness:
  "preHandler (form_method (Some ''delete'')) =
     (Some (JsError ''TypeError: Cannot set property method, which has only a getter''),
      (form_method (Some ''delete''))
        \<lparr>raw := (raw (form_method (Some ''delete'')))\<lparr>raw_method := ''DELETE''\<rparr>\<rparr>) \<and>
   statusCode (fst (errorHandler (Inr None)
       (JsError ''TypeError: Cannot set property method, which has only a getter'')
       (snd (preHandler (form_method (Some ''delete'')))) new_reply monitor0)) = 500 \<and>
   preHandler (form_method (Some ''get'')) = (None, form_method (Some ''get'')) \<and>
   preHandler (form_method None) = (None, form_method None) \<and>
   preHandler req0 = (None, req0)"
proof -
  let ?e = "JsError ''TypeError: Cannot set property method, which has only a getter''"
  let ?d = "form_method (Some ''delete'')"
  have u: "toUpperCase ''delete'' = ''DELETE''" "toUpperCase ''get'' = ''GET''"
    by code_simp+
  have f: "req_method (form_method v) = ''POST''"
    "body (form_method v) = Some \<lparr>body_method = v, body_data = None\<rparr>" for v
    by (simp_all add: form_method_def req_method_def)
  have g: "req_method req0 \<noteq> ''POST''" by (simp add: req0_def req_method_def)
  note T = preHandler_override_throws
  from T[of ?d "\<lparr>body_method = Some ''delete'', body_data = None\<rparr>" "''delete''"
      ?e "Inr None" new_reply monitor0] u f
  have a: "preHandler ?d = (Some ?e, ?d\<lparr>raw := (raw ?d)\<lparr>raw_method := ''DELETE''\<rparr>\<rparr>)"
    by simp
  from T[of ?d "\<lparr>body_method = Some ''delete'', body_data = None\<rparr>" "''delete''"
      ?e "Inr None" new_reply monitor0] a
  have a5: "statusCode (fst (errorHandler (Inr None) ?e (snd (preHandler ?d)) new_reply monitor0))
      = 500"
    by simp
  from T[of "form_method (Some ''get'')" "\<lparr>body_method = Some ''get'', body_data = None\<rparr>"
      "''get''" ?e "Inr None" new_reply monitor0] u f
  have b: "preHandler (form_method (Some ''get'')) = (None, form_method (Some ''get''))" by simp
  from T[of "form_method None" "\<lparr>body_method = None, body_data = None\<rparr>" "[]"
      ?e "Inr None" new_reply monitor0] f
  have c: "preHandler (form_method None) = (None, form_method None)" by simp
  from T[of req0 "\<lparr>body_method = None, body_data = None\<rparr>" "[]" ?e "Inr None" new_reply monitor0] g
  have d: "preHandler req0 = (None, req0)" by simp
  from a a5 b c d show ?thesis by simp
qed

section \<open>Filtering tasks\<close>

lemma task_matches_iff:
  "task_matches eqn f d t \<longleftrightarrow>
     (\<forall>n. filter_statusId f = Some n \<longrightarrow> eqn n (statusId t)) \<and>
     (\<forall>n. filter_executorId f = Some n \<longrightarrow> (\<exists>e. executorId t = Some e \<and> eqn n e)) \<and>
     (\<forall>n. filter_labelId f = Some n \<longrightarrow>
          (\<exists>tl \<in> set (tasks_labels d). taskId tl = task_id t \<and> eqn n (labelId tl))) \<and>
     (filter_hasLabel f \<longrightarrow> (\<exists>tl \<in> set (tasks_labels d). taskId tl = task_id t)) \<and>
     (\<forall>i. filter_createdBy f = Some i \<longrightarrow> creatorId t = i)"
  by (auto simp: task_matches_def list_ex_iff split: option.splits)

lemma switched_on_iff: "switched_on v \<longleftrightarrow> v \<in> {Some ''1'', Some ''true'', Some ''on''}"
  by (cases v) (auto simp: switched_on_def truthy_def)

lemma task_filters_values:
  "filter_statusId (task_filters P req) =
     (case query req ''statusId'' of
        None \<Rightarrow> None | Some s \<Rightarrow> if s = [] then None else Some (Number P s)) \<and>
   filter_executorId (task_filters P req) =
     (case query req ''executorId'' of
        None \<Rightarrow> None | Some s \<Rightarrow> if s = [] then None else Some (Number P s)) \<and>
   filter_labelId (task_filters P req) =
     (case query req ''labelId'' of
        None \<Rightarrow> None | Some s \<Rightarrow> if s = [] then None else Some (Number P s)) \<and>
   (filter_hasLabel (task_filters P req) \<longleftrightarrow>
      query req ''hasLabel'' \<in> {Some ''1'', Some ''true'', Some ''on''}) \<and>
   filter_createdBy (task_filters P req) =
     (if query req ''onlyMy'' \<in> {Some ''1'', Some ''true'', Some ''on''}
      then map_option user_id (currentUser req) else None)"
  by (auto simp: task_filters_def switched_on_iff truthy_def split: option.splits)

lemma filter_of_query_all:
  "(\<forall>n. (case q of None \<Rightarrow> None | Some s \<Rightarrow> if s = [] then None else Some (g s)) = Some n
        \<longrightarrow> E n) \<longleftrightarrow>
   (\<forall>s. q = Some s \<and> s \<noteq> [] \<longrightarrow> E (g s))"
  by (cases q) auto

lemma createdBy_of_query_all:
  "(\<forall>i. (if c then map_option user_id cu else None) = Some i \<longrightarrow> E i) \<longleftrightarrow>
   (c \<longrightarrow> (\<forall>u. cu = Some u \<longrightarrow> E (user_id u)))"
  by (cases cu) auto

lemma task_matches_query:
  "task_matches (sql_eq_num P) (task_filters P req) d t \<longleftrightarrow>
     (\<forall>s. query req ''statusId'' = Some s \<and> s \<noteq> [] \<longrightarrow>
          sql_eq_num P (Number P s) (statusId t)) \<and>
     (\<forall>s. query req ''executorId'' = Some s \<and> s \<noteq> [] \<longrightarrow>
          (\<exists>e. executorId t = Some e \<and> sql_eq_num P (Number P s) e)) \<and>
     (\<forall>s. query req ''labelId'' = Some s \<and> s \<noteq> [] \<longrightarrow>
          (\<exists>tl \<in> set (tasks_labels d).
              taskId tl = task_id t \<and> sql_eq_num P (Number P s) (labelId tl))) \<and>
     (query req ''hasLabel'' \<in> {Some ''1'', Some ''true'', Some ''on''} \<longrightarrow>
          (\<exists>tl \<in> set (tasks_labels d). taskId tl = task_id t)) \<and>
     (query req ''onlyMy'' \<in> {Some ''1'', Some ''true'', Some ''on''} \<longrightarrow>
          (\<forall>u. currentUser req = Some u \<longrightarrow> creatorId t = user_id u))"
proof -
  note V = task_filters_values[of P req]
  from V have s: "filter_statusId (task_filters P req) =
     (case query req ''statusId'' of
        None \<Rightarrow> None | Some s \<Rightarrow> if s = [] then None else Some (Number P s))" by blast
  from V have e: "filter_executorId (task_filters P req) =
     (case query req ''executorId'' of
        None \<Rightarrow> None | Some s \<Rightarrow> if s = [] then None else Some (Number P s))" by blast
  from V have l: "filter_labelId (task_filters P req) =
     (case query req ''labelId'' of
        None \<Rightarrow> None | Some s \<Rightarrow> if s = [] then None else Some (Number P s))" by blast
  from V have h: "filter_hasLabel (task_filters P req) \<longleftrightarrow>
      query req ''hasLabel'' \<in> {Some ''1'', Some ''true'', Some ''on''}" by blast
  from V have c: "filter_createdBy (task_filters P req) =
     (if query req ''onlyMy'' \<in> {Some ''1'', Some ''true'', Some ''on''}
      then map_option user_id (currentUser req) else None)" by blast
  show ?thesis
    unfolding task_matches_iff s e l h c filter_of_query_all createdBy_of_query_all ..
qed

lemma onRequest_currentUser:
  "onRequest P R rq d = Inr req1 \<Longrightarrow> currentUser req1 = Some u \<Longrightarrow>
     \<exists>uid. parseCookies (decodeURIComponent P) (header_cookie (raw rq)) ''userId'' = Some uid \<and>
           uid \<noteq> [] \<and> userRepo_findById R uid d = Inr (Some u)"
  by (auto simp: onRequest_def Let_def truthy_def split: if_splits sum.splits option.splits)

lemma tasks_get_passes_filters:
  "tasks_get P R req rep d =
     (case taskRepo_findAll R (task_filters P req) d of
        Inl e \<Rightarrow> (Some e, rep)
      | Inr tsks \<Rightarrow>
          (case userRepo_findAll R d of
             Inl e \<Rightarrow> (Some e, rep)
           | Inr usrs \<Rightarrow>
               (case labelRepo_findAll R d of
                  Inl e \<Rightarrow> (Some e, rep)
                | Inr lbls \<Rightarrow>
                    (case pug_renderFile P ''views/tasks/index.pug''
                            \<lparr>view_lang = lang_of req, view_tasks = tsks,
                             view_currentUser = currentUser req,
                             view_flash = fst (getFlash P (cookies req) rep),
                             view_statuses = statuses d, view_users = usrs, view_labels = lbls,
                             view_filters =
                               [query req ''statusId'', query req ''executorId'',
                                query req ''labelId'', query req ''onlyMy'',
                                query req ''hasLabel'']\<rparr> of
                       Inl e \<Rightarrow> (Some e, snd (getFlash P (cookies req) rep))
                     | Inr html \<Rightarrow>
                         (None, (snd (getFlash P (cookies req) rep))
                                  \<lparr>contentType := Some ''text/html'', payload := Some html\<rparr>)))))"
  by (simp add: tasks_get_def statusRepo_findAll_def send_def
      split: sum.splits prod.splits)

lemma spec_findAll_query:
  "spec_taskRepo_findAll (sql_eq_num P) (task_filters P req) d =
     Inr (filter
       (\<lambda>t. (\<forall>s. query req ''statusId'' = Some s \<and> s \<noteq> [] \<longrightarrow>
                   sql_eq_num P (Number P s) (statusId t)) \<and>
            (\<forall>s. query req ''executorId'' = Some s \<and> s \<noteq> [] \<longrightarrow>
                   (\<exists>e. executorId t = Some e \<and> sql_eq_num P (Number P s) e)) \<and>
            (\<forall>s. query req ''labelId'' = Some s \<and> s \<noteq> [] \<longrightarrow>
                   (\<exists>tl \<in> set (tasks_labels d).
                       taskId tl = task_id t \<and> sql_eq_num P (Number P s) (labelId tl))) \<and>
            (query req ''hasLabel'' \<in> {Some ''1'', Some ''true'', Some ''on''} \<longrightarrow>
                   (\<exists>tl \<in> set (tasks_labels d). taskId tl = task_id t)) \<and>
            (query req ''onlyMy'' \<in> {Some ''1'', Some ''true'', Some ''on''} \<longrightarrow>
                   (\<forall>u. currentUser req = Some u \<longrightarrow> creatorId t = user_id u)))
       (tasks d))"
  unfolding spec_taskRepo_findAll_def
  by (rule arg_cong[where f = Inr], rule filter_cong[OF refl], rule task_matches_query)

text \<open>
  C5. \<^verbatim>\<open>GET /tasks\<close> builds the filter object from the query. The keys \<^verbatim>\<open>statusId\<close>,
  \<^verbatim>\<open>executorId\<close> and \<^verbatim>\<open>labelId\<close> are present exactly when the parameter is a non-empty
  string, and their value is \<^verbatim>\<open>Number\<close> of that string; \<^verbatim>\<open>hasLabel\<close> is set exactly when
  its parameter is \<^verbatim>\<open>1\<close>, \<^verbatim>\<open>true\<close> or \<^verbatim>\<open>on\<close>; \<^verbatim>\<open>createdBy\<close> is present exactly when
  \<^verbatim>\<open>onlyMy\<close> is one of these and the request has a current user, and its value is the id
  of that user. The current user is the one the \<^verbatim>\<open>onRequest\<close> hook found for the
  non-empty cookie \<^verbatim>\<open>userId\<close>. The handler passes this object to \<^verbatim>\<open>taskRepo.findAll\<close> and
  what comes back to the view, for every repository. With \<^verbatim>\<open>taskRepo.findAll\<close> written
  from the specification, the tasks the view gets are exactly the rows of \<^verbatim>\<open>tasks\<close> that
  satisfy every filter the request supplies: the status, the executor and the label that
  the database finds equal to the number of the parameter, a label at all for
  \<^verbatim>\<open>hasLabel\<close>, and the current user as creator for \<^verbatim>\<open>onlyMy\<close>. In general that
  \<^verbatim>\<open>findAll\<close> returns exactly the rows that satisfy every filter that is present.
\<close>

theorem tasks_get_filters_conjoined:
  "(filter_statusId (task_filters P req) =
     (case query req ''statusId'' of
        None \<Rightarrow> None | Some s \<Rightarrow> if s = [] then None else Some (Number P s)) \<and>
   filter_executorId (task_filters P req) =
     (case query req ''executorId'' of
        None \<Rightarrow> None | Some s \<Rightarrow> if s = [] then None else Some (Number P s)) \<and>
   filter_labelId (task_filters P req) =
     (case query req ''labelId'' of
        None \<Rightarrow> None | Some s \<Rightarrow> if s = [] then None else Some (Number P s)) \<and>
   (filter_hasLabel (task_filters P req) \<longleftrightarrow>
      query req ''hasLabel'' \<in> {Some ''1'', Some ''true'', Some ''on''}) \<and>
   filter_createdBy (task_filters P req) =
     (if query req ''onlyMy'' \<in> {Some ''1'', Some ''true'', Some ''on''}
      then map_option user_id (currentUser req) else None))
   \<and> (onRequest P R rq d = Inr req \<and> currentUser req = Some u \<longrightarrow>
        (\<exists>uid. parseCookies (decodeURIComponent P) (header_cookie (raw rq)) ''userId'' = Some uid \<and>
              uid \<noteq> [] \<and> userRepo_findById R uid d = Inr (Some u)))
   \<and> (taskRepo_findAll R (task_filters P req) d = Inr tsks \<and> userRepo_findAll R d = Inr usrs \<and>
        labelRepo_findAll R d = Inr lbls \<longrightarrow>
        tasks_get P R req rep d =
          (case pug_renderFile P ''views/tasks/index.pug''
                  \<lparr>view_lang = lang_of req, view_tasks = tsks,
                   view_currentUser = currentUser req,
                   view_flash = fst (getFlash P (cookies req) rep),
                   view_statuses = statuses d, view_users = usrs, view_labels = lbls,
                   view_filters =
                     [query req ''statusId'', query req ''executorId'', query req ''labelId'',
                      query req ''onlyMy'', query req ''hasLabel'']\<rparr> of
             Inl e \<Rightarrow> (Some e, snd (getFlash P (cookies req) rep))
           | Inr html \<Rightarrow>
               (None, (snd (getFlash P (cookies req) rep))
                        \<lparr>contentType := Some ''text/html'', payload := Some html\<rparr>)))
   \<and> (taskRepo_findAll R = spec_taskRepo_findAll (sql_eq_num P) \<and>
        userRepo_findAll R d = Inr usrs \<and> labelRepo_findAll R d = Inr lbls \<longrightarrow>
        tasks_get P R req rep d =
          (case pug_renderFile P ''views/tasks/index.pug''
                  \<lparr>view_lang = lang_of req, view_tasks = 
                     filter
                  (\<lambda>t. (\<forall>s. query req ''statusId'' = Some s \<and> s \<noteq> [] \<longrightarrow>
                            sql_eq_num P (Number P s) (statusId t)) \<and>
                     (\<forall>s. query req ''executorId'' = Some s \<and> s \<noteq> [] \<longrightarrow>
                            (\<exists>e. executorId t = Some e \<and> sql_eq_num P (Number P s) e)) \<and>
                     (\<forall>s. query req ''labelId'' = Some s \<and> s \<noteq> [] \<longrightarrow>
                            (\<exists>tl \<in> set (tasks_labels d).
                                taskId tl = task_id t \<and>
                                sql_eq_num P (Number P s) (labelId tl))) \<and>
                     (query req ''hasLabel'' \<in> {Some ''1'', Some ''true'', Some ''on''} \<longrightarrow>
                            (\<exists>tl \<in> set (tasks_labels d). taskId tl = task_id t)) \<and>
                     (query req ''onlyMy'' \<in> {Some ''1'', Some ''true'', Some ''on''} \<longrightarrow>
                            (\<forall>u. currentUser req = Some u \<longrightarrow> creatorId t = user_id u)))
                  (tasks d),
                   view_currentUser = currentUser req,
                   view_flash = fst (getFlash P (cookies req) rep),
                   view_statuses = statuses d, view_users = usrs, view_labels = lbls,
                   view_filters =
                     [query req ''statusId'', query req ''executorId'', query req ''labelId'',
                      query req ''onlyMy'', query req ''hasLabel'']\<rparr> of
             Inl e \<Rightarrow> (Some e, snd (getFlash P (cookies req) rep))
           | Inr html \<Rightarrow>
               (None, (snd (getFlash P (cookies req) rep))
                        \<lparr>contentType := Some ''text/html'', payload := Some html\<rparr>)))
   \<and> (spec_taskRepo_findAll eqn f d = Inr found \<longrightarrow>
        (t \<in> set found \<longleftrightarrow>
           t \<in> set (tasks d) \<and>
           (\<forall>n. filter_statusId f = Some n \<longrightarrow> eqn n (statusId t)) \<and>
           (\<forall>n. filter_executorId f = Some n \<longrightarrow> (\<exists>e. executorId t = Some e \<and> eqn n e)) \<and>
           (\<forall>n. filter_labelId f = Some n \<longrightarrow>
                (\<exists>tl \<in> set (tasks_labels d). taskId tl = task_id t \<and> eqn n (labelId tl))) \<and>
           (filter_hasLabel f \<longrightarrow> (\<exists>tl \<in> set (tasks_labels d). taskId tl = task_id t)) \<and>
           (\<forall>i. filter_createdBy f = Some i \<longrightarrow> creatorId t = i)))"
proof -
  have c: "(taskRepo_findAll R (task_filters P req) d = Inr tsks \<and> userRepo_findAll R d = Inr usrs \<and>
        labelRepo_findAll R d = Inr lbls \<longrightarrow>
        tasks_get P R req rep d =
          (case pug_renderFile P ''views/tasks/index.pug''
                  \<lparr>view_lang = lang_of req, view_tasks = tsks,
                   view_currentUser = currentUser req,
                   view_flash = fst (getFlash P (cookies req) rep),
                   view_statuses = statuses d, view_users = usrs, view_labels = lbls,
                   view_filters =
                     [query req ''statusId'', query req ''executorId'', query req ''labelId'',
                      query req ''onlyMy'', query req ''hasLabel'']\<rparr> of
             Inl e \<Rightarrow> (Some e, snd (getFlash P (cookies req) rep))
           | Inr html \<Rightarrow>
               (None, (snd (getFlash P (cookies req) rep))
                        \<lparr>contentType := Some ''text/html'', payload := Some html\<rparr>)))"
    by (simp add: tasks_get_passes_filters)
  have d: "(taskRepo_findAll R = spec_taskRepo_findAll (sql_eq_num P) \<and>
        userRepo_findAll R d = Inr usrs \<and> labelRepo_findAll R d = Inr lbls \<longrightarrow>
        tasks_get P R req rep d =
          (case pug_renderFile P ''views/tasks/index.pug''
                  \<lparr>view_lang = lang_of req, view_tasks = 
                     filter
                  (\<lambda>t. (\<forall>s. query req ''statusId'' = Some s \<and> s \<noteq> [] \<longrightarrow>
                            sql_eq_num P (Number P s) (statusId t)) \<and>
                     (\<forall>s. query req ''executorId'' = Some s \<and> s \<noteq> [] \<longrightarrow>
                            (\<exists>e. executorId t = Some e \<and> sql_eq_num P (Number P s) e)) \<and>
                     (\<forall>s. query req ''labelId'' = Some s \<and> s \<noteq> [] \<longrightarrow>
                            (\<exists>tl \<in> set (tasks_labels d).
                                taskId tl = task_id t \<and>
                                sql_eq_num P (Number P s) (labelId tl))) \<and>
                     (query req ''hasLabel'' \<in> {Some ''1'', Some ''true'', Some ''on''} \<longrightarrow>
                            (\<exists>tl \<in> set (tasks_labels d). taskId tl = task_id t)) \<and>
                     (query req ''onlyMy'' \<in> {Some ''1'', Some ''true'', Some ''on''} \<longrightarrow>
                            (\<forall>u. currentUser req = Some u \<longrightarrow> creatorId t = user_id u)))
                  (tasks d),
                   view_currentUser = currentUser req,
                   view_flash = fst (getFlash P (cookies req) rep),
                   view_statuses = statuses d, view_users = usrs, view_labels = lbls,
                   view_filters =
                     [query req ''statusId'', query req ''executorId'', query req ''labelId'',
                      query req ''onlyMy'', query req ''hasLabel'']\<rparr> of
             Inl e \<Rightarrow> (Some e, snd (getFlash P (cookies req) rep))
           | Inr html \<Rightarrow>
               (None, (snd (getFlash P (cookies req) rep))
                        \<lparr>contentType := Some ''text/html'', payload := Some html\<rparr>)))"
    by (simp add: tasks_get_passes_filters spec_findAll_query)
  have e: "(spec_taskRepo_findAll eqn f d = Inr found \<longrightarrow>
        (t \<in> set found \<longleftrightarrow>
           t \<in> set (tasks d) \<and>
           (\<forall>n. filter_statusId f = Some n \<longrightarrow> eqn n (statusId t)) \<and>
           (\<forall>n. filter_executorId f = Some n \<longrightarrow> (\<exists>e. executorId t = Some e \<and> eqn n e)) \<and>
           (\<forall>n. filter_labelId f = Some n \<longrightarrow>
                (\<exists>tl \<in> set (tasks_labels d). taskId tl = task_id t \<and> eqn n (labelId tl))) \<and>
           (filter_hasLabel f \<longrightarrow> (\<exists>tl \<in> set (tasks_labels d). taskId tl = task_id t)) \<and>
           (\<forall>i. filter_createdBy f = Some i \<longrightarrow> creatorId t = i)))"
    using task_matches_iff[of eqn f d t] by (auto simp: spec_taskRepo_findAll_def)
  from task_filters_values[of P req] onRequest_currentUser[of P R rq d req u] c d e
  show ?thesis by blast
qed
text \<open>On the sample data, with the repository written from the specification: every task
  has status 1, so the request for status 2 gets no task and the request for status 1
  gets the three; with Alice signed in the request for her tasks gets tasks 1 and 3; with
  no current user the filter \<^verbatim>\<open>createdBy\<close> is absent and the request gets the three.\<close>

theorem tasks_get_filters_conjoined_witness:
  "filter_statusId (task_filters P0 (of_status ''2'')) = Some (Some 2) \<and>
   tasks_get P0 (spec_repos P0) (of_status ''2'') new_reply db0 =
     (None, new_reply\<lparr>contentType := Some ''text/html'', payload := Some []\<rparr>) \<and>
   tasks_get P0 (spec_repos P0) (of_status ''1'') new_reply db0 =
     (None, new_reply\<lparr>contentType := Some ''text/html'',
                      payload := Some ''write, review, ship''\<rparr>) \<and>
   tasks_get P0 (spec_repos P0) (only_my (Some alice)) new_reply db0 =
     (None, new_reply\<lparr>contentType := Some ''text/html'', payload := Some ''write, ship''\<rparr>) \<and>
   tasks_get P0 (spec_repos P0) (only_my None) new_reply db0 =
     (None, new_reply\<lparr>contentType := Some ''text/html'',
                      payload := Some ''write, review, ship''\<rparr>)"
proof -
  have n: "Number P0 ''1'' = Some 1" "Number P0 ''2'' = Some 2" by code_simp+
  have eq: "sql_eq_num P0 k i = (k = Some i)" for k i by (simp add: P0_def)
  have pr: "pug_renderFile P0 fl v = Inr (join '', '' (map task_name (view_tasks v)))" for fl v
    by (simp add: P0_def)
  have gf: "getFlash P0 Map.empty new_reply = (None, new_reply)"
    by (simp add: getFlash_def truthy_def)
  have qs: "query (of_status s) = [''statusId'' \<mapsto> s]" "cookies (of_status s) = Map.empty"
    "currentUser (of_status s) = None" for s
    by (simp_all add: of_status_def req0_def)
  have qm: "query (only_my w) = [''statusId'' \<mapsto> ''1'', ''onlyMy'' \<mapsto> ''1'']"
    "cookies (only_my w) = Map.empty" "currentUser (only_my w) = w" for w
    by (simp_all add: only_my_def req0_def)
  have tk: "tasks db0 = [task1, task2, task3]" by (simp add: db0_def)
  have fd: "statusId task1 = 1" "statusId task2 = 1" "statusId task3 = 1"
    "creatorId task1 = 1" "creatorId task2 = 2" "creatorId task3 = 1"
    "task_name task1 = ''write''" "task_name task2 = ''review''" "task_name task3 = ''ship''"
    "user_id alice = 1"
    by (simp_all add: task1_def task2_def task3_def alice_def)
  have r: "taskRepo_findAll (spec_repos P0) = spec_taskRepo_findAll (sql_eq_num P0)"
    "userRepo_findAll (spec_repos P0) db0 = Inr (users db0)"
    "labelRepo_findAll (spec_repos P0) db0 = Inr (labels db0)"
    by (simp_all add: spec_repos_def spec_userRepo_findAll_def spec_labelRepo_findAll_def)
  note T = tasks_get_filters_conjoined[where P = P0 and R = "spec_repos P0" and d = db0
      and rep = new_reply and usrs = "users db0" and lbls = "labels db0" and rq = req0
      and u = alice and tsks = "[]" and eqn = "sql_eq_num P0"
      and f = "task_filters P0 req0" and found = "[]" and t = task1]
  from T[where req = "of_status ''2''"] have a0:
    "filter_statusId (task_filters P0 (of_status ''2'')) = Some (Some 2)"
    by (simp add: qs n)
  from T[where req = "of_status ''2''"] r have a:
    "tasks_get P0 (spec_repos P0) (of_status ''2'') new_reply db0 =
     (None, new_reply\<lparr>contentType := Some ''text/html'', payload := Some []\<rparr>)"
    by (simp add: qs n eq pr gf tk fd)
  from T[where req = "of_status ''1''"] r have b:
    "tasks_get P0 (spec_repos P0) (of_status ''1'') new_reply db0 =
     (None, new_reply\<lparr>contentType := Some ''text/html'',
                      payload := Some ''write, review, ship''\<rparr>)"
    by (simp add: qs n eq pr gf tk fd)
  from T[where req = "only_my (Some alice)"] r have c:
    "tasks_get P0 (spec_repos P0) (only_my (Some alice)) new_reply db0 =
     (None, new_reply\<lparr>contentType := Some ''text/html'', payload := Some ''write, ship''\<rparr>)"
    by (simp add: qm n eq pr gf tk fd)
  from T[where req = "only_my None"] r have d:
    "tasks_get P0 (spec_repos P0) (only_my None) new_reply db0 =
     (None, new_reply\<lparr>contentType := Some ''text/html'',
                      payload := Some ''write, review, ship''\<rparr>)"
    by (simp add: qm n eq pr gf tk fd)
  from a0 a b c d show ?thesis by simp
qed

end
